theory Spec2Isabelle
  imports Complex_Main "HOL-Library.Word"
begin

unbundle bit_operations_syntax

section \<open>Numbers and vectors\<close>

text \<open>
  The C++ type \<^verbatim>\<open>float\<close> is modelled by \<^typ>\<open>real\<close>. Comparisons, \<^verbatim>\<open>std::max\<close>,
  \<^verbatim>\<open>std::min\<close>, \<^verbatim>\<open>std::abs\<close> and \<^verbatim>\<open>std::floor\<close> are the same on floats (NaN apart) and
  on reals; sums, products and quotients are taken without rounding. \<^verbatim>\<open>Vector2f\<close> is a pair
  \<open>(x, y)\<close>, added and subtracted componentwise.
\<close>

type_synonym Vector2f = "real \<times> real"

definition vadd :: "Vector2f \<Rightarrow> Vector2f \<Rightarrow> Vector2f" where
  "vadd a b = (fst a + fst b, snd a + snd b)"

definition vsub :: "Vector2f \<Rightarrow> Vector2f \<Rightarrow> Vector2f" where
  "vsub a b = (fst a - fst b, snd a - snd b)"

section \<open>Computed style values (StyleTypes.h, ComputedValues.h)\<close>

text \<open>
  \<^verbatim>\<open>Style::LengthPercentageAuto\<close> and \<^verbatim>\<open>Style::LengthPercentage\<close> are a type tag with a
  float; they are tagged unions here. The enumerations list the enumerators the
  converters of the layout engine switch over. The accessor \<^verbatim>\<open>c.max_width()\<close> of the computed
  values is the field \<open>cv_max_width c\<close>, and so for every property.
\<close>

datatype LengthPercentageAuto = LPA_Auto | LPA_Length real | LPA_Percentage real

datatype LengthPercentage = LP_Length real | LP_Percentage real

datatype Display = Display_None | Display_Block | Display_Inline | Display_InlineBlock
  | Display_Flex | Display_InlineFlex

datatype BoxSizing = ContentBox | BorderBox

datatype FlexDirection = Row | RowReverse | Column | ColumnReverse

datatype FlexWrap = Nowrap | Wrap | WrapReverse

datatype JustifyContent = JC_FlexStart | JC_FlexEnd | JC_Center | JC_SpaceBetween
  | JC_SpaceAround | JC_SpaceEvenly

datatype AlignContent = AC_FlexStart | AC_FlexEnd | AC_Center | AC_SpaceBetween
  | AC_SpaceAround | AC_SpaceEvenly | AC_Stretch

datatype AlignItems = AI_FlexStart | AI_FlexEnd | AI_Center | AI_Baseline | AI_Stretch

datatype AlignSelf = AS_Auto | AS_FlexStart | AS_FlexEnd | AS_Center | AS_Baseline | AS_Stretch

datatype Position = Static | Relative | Absolute | Fixed

datatype Direction = Direction_Auto | Ltr | Rtl

datatype Overflow = Overflow_Visible | Overflow_Hidden | Overflow_Auto | Overflow_Scroll

record ComputedValues =
  cv_display :: Display
  cv_box_sizing :: BoxSizing
  cv_flex_direction :: FlexDirection
  cv_flex_wrap :: FlexWrap
  cv_justify_content :: JustifyContent
  cv_align_content :: AlignContent
  cv_align_items :: AlignItems
  cv_align_self :: AlignSelf
  cv_flex_grow :: real
  cv_flex_shrink :: real
  cv_flex_basis :: LengthPercentageAuto
  cv_width :: LengthPercentageAuto
  cv_height :: LengthPercentageAuto
  cv_min_width :: LengthPercentage
  cv_min_height :: LengthPercentage
  cv_max_width :: LengthPercentage
  cv_max_height :: LengthPercentage
  cv_margin_top :: LengthPercentageAuto
  cv_margin_right :: LengthPercentageAuto
  cv_margin_bottom :: LengthPercentageAuto
  cv_margin_left :: LengthPercentageAuto
  cv_padding_top :: LengthPercentage
  cv_padding_right :: LengthPercentage
  cv_padding_bottom :: LengthPercentage
  cv_padding_left :: LengthPercentage
  cv_border_top_width :: nat
  cv_border_right_width :: nat
  cv_border_bottom_width :: nat
  cv_border_left_width :: nat
  cv_row_gap :: LengthPercentage
  cv_column_gap :: LengthPercentage
  cv_position :: Position
  cv_top :: LengthPercentageAuto
  cv_right :: LengthPercentageAuto
  cv_bottom :: LengthPercentageAuto
  cv_left :: LengthPercentageAuto
  cv_overflow_x :: Overflow
  cv_overflow_y :: Overflow
  cv_direction :: Direction

section \<open>The style of a Yoga node\<close>

text \<open>
  The Yoga library is not part of the repository. A node's style is the record of what
  the setters of Yoga's C API store: \<^verbatim>\<open>YGNodeStyleSetMaxWidth(node, v)\<close> is the update
  \<open>node\<lparr>yg_max_width := YGPoint v\<rparr>\<close>, \<^verbatim>\<open>YGNodeStyleSetMargin(node, edge, v)\<close> the update of
  the edge-indexed field at \<open>edge\<close>, and so on. A value that was never set is
  \<open>YGUndefined\<close>, which Yoga reads as "no constraint".
\<close>

datatype YGValue = YGUndefined | YGAuto | YGPoint real | YGPercent real

datatype YGDisplay = YGDisplayFlex | YGDisplayNone

datatype YGBoxSizing = YGBoxSizingContentBox | YGBoxSizingBorderBox

datatype YGFlexDirection = YGFlexDirectionRow | YGFlexDirectionRowReverse
  | YGFlexDirectionColumn | YGFlexDirectionColumnReverse

datatype YGWrap = YGWrapNoWrap | YGWrapWrap | YGWrapWrapReverse

datatype YGJustify = YGJustifyFlexStart | YGJustifyFlexEnd | YGJustifyCenter
  | YGJustifySpaceBetween | YGJustifySpaceAround | YGJustifySpaceEvenly

datatype YGAlign = YGAlignAuto | YGAlignFlexStart | YGAlignFlexEnd | YGAlignCenter
  | YGAlignBaseline | YGAlignStretch | YGAlignSpaceBetween | YGAlignSpaceAround
  | YGAlignSpaceEvenly

datatype YGPositionType = YGPositionTypeStatic | YGPositionTypeRelative | YGPositionTypeAbsolute

datatype YGDirection = YGDirectionInherit | YGDirectionLTR | YGDirectionRTL

datatype YGOverflow = YGOverflowVisible | YGOverflowHidden | YGOverflowScroll

datatype YGEdge = YGEdgeLeft | YGEdgeTop | YGEdgeRight | YGEdgeBottom

datatype YGGutter = YGGutterColumn | YGGutterRow

datatype YGDimension = YGDimensionWidth | YGDimensionHeight

datatype YGMeasureMode = YGMeasureModeUndefined | YGMeasureModeExactly | YGMeasureModeAtMost

record YGStyle =
  yg_display :: YGDisplay
  yg_box_sizing :: YGBoxSizing
  yg_flex_direction :: YGFlexDirection
  yg_flex_wrap :: YGWrap
  yg_justify_content :: YGJustify
  yg_align_content :: YGAlign
  yg_align_items :: YGAlign
  yg_align_self :: YGAlign
  yg_flex_grow :: real
  yg_flex_shrink :: real
  yg_flex_basis :: YGValue
  yg_width :: YGValue
  yg_height :: YGValue
  yg_min_width :: YGValue
  yg_min_height :: YGValue
  yg_max_width :: YGValue
  yg_max_height :: YGValue
  yg_margin :: "YGEdge \<Rightarrow> YGValue"
  yg_padding :: "YGEdge \<Rightarrow> YGValue"
  yg_border :: "YGEdge \<Rightarrow> YGValue"
  yg_gap :: "YGGutter \<Rightarrow> YGValue"
  yg_position_type :: YGPositionType
  yg_position :: "YGEdge \<Rightarrow> YGValue"
  yg_overflow :: YGOverflow
  yg_direction :: YGDirection

section \<open>Style Adapter (LayoutEngine.cpp)\<close>

fun ToYogaFlexDirection :: "FlexDirection \<Rightarrow> YGFlexDirection" where
  "ToYogaFlexDirection Row = YGFlexDirectionRow"
| "ToYogaFlexDirection RowReverse = YGFlexDirectionRowReverse"
| "ToYogaFlexDirection Column = YGFlexDirectionColumn"
| "ToYogaFlexDirection ColumnReverse = YGFlexDirectionColumnReverse"

fun ToYogaWrap :: "FlexWrap \<Rightarrow> YGWrap" where
  "ToYogaWrap Nowrap = YGWrapNoWrap"
| "ToYogaWrap Wrap = YGWrapWrap"
| "ToYogaWrap WrapReverse = YGWrapWrapReverse"

fun ToYogaJustify :: "JustifyContent \<Rightarrow> YGJustify" where
  "ToYogaJustify JC_FlexStart = YGJustifyFlexStart"
| "ToYogaJustify JC_FlexEnd = YGJustifyFlexEnd"
| "ToYogaJustify JC_Center = YGJustifyCenter"
| "ToYogaJustify JC_SpaceBetween = YGJustifySpaceBetween"
| "ToYogaJustify JC_SpaceAround = YGJustifySpaceAround"
| "ToYogaJustify JC_SpaceEvenly = YGJustifySpaceEvenly"

fun ToYogaAlignContent :: "AlignContent \<Rightarrow> YGAlign" where
  "ToYogaAlignContent AC_FlexStart = YGAlignFlexStart"
| "ToYogaAlignContent AC_FlexEnd = YGAlignFlexEnd"
| "ToYogaAlignContent AC_Center = YGAlignCenter"
| "ToYogaAlignContent AC_SpaceBetween = YGAlignSpaceBetween"
| "ToYogaAlignContent AC_SpaceAround = YGAlignSpaceAround"
| "ToYogaAlignContent AC_SpaceEvenly = YGAlignSpaceEvenly"
| "ToYogaAlignContent AC_Stretch = YGAlignStretch"

fun ToYogaAlignItems :: "AlignItems \<Rightarrow> YGAlign" where
  "ToYogaAlignItems AI_FlexStart = YGAlignFlexStart"
| "ToYogaAlignItems AI_FlexEnd = YGAlignFlexEnd"
| "ToYogaAlignItems AI_Center = YGAlignCenter"
| "ToYogaAlignItems AI_Baseline = YGAlignBaseline"
| "ToYogaAlignItems AI_Stretch = YGAlignStretch"

fun ToYogaAlignSelf :: "AlignSelf \<Rightarrow> YGAlign" where
  "ToYogaAlignSelf AS_Auto = YGAlignAuto"
| "ToYogaAlignSelf AS_FlexStart = YGAlignFlexStart"
| "ToYogaAlignSelf AS_FlexEnd = YGAlignFlexEnd"
| "ToYogaAlignSelf AS_Center = YGAlignCenter"
| "ToYogaAlignSelf AS_Baseline = YGAlignBaseline"
| "ToYogaAlignSelf AS_Stretch = YGAlignStretch"

fun ToYogaPositionType :: "Position \<Rightarrow> YGPositionType" where
  "ToYogaPositionType Static = YGPositionTypeStatic"
| "ToYogaPositionType Relative = YGPositionTypeRelative"
| "ToYogaPositionType Absolute = YGPositionTypeAbsolute"
| "ToYogaPositionType Fixed = YGPositionTypeAbsolute"

fun ToYogaDirection :: "Direction \<Rightarrow> YGDirection" where
  "ToYogaDirection Direction_Auto = YGDirectionInherit"
| "ToYogaDirection Ltr = YGDirectionLTR"
| "ToYogaDirection Rtl = YGDirectionRTL"

fun ToYogaOverflow :: "Overflow \<Rightarrow> YGOverflow" where
  "ToYogaOverflow Overflow_Visible = YGOverflowVisible"
| "ToYogaOverflow Overflow_Hidden = YGOverflowHidden"
| "ToYogaOverflow Overflow_Scroll = YGOverflowScroll"
| "ToYogaOverflow Overflow_Auto = YGOverflowScroll"

fun ToYogaBoxSizing :: "BoxSizing \<Rightarrow> YGBoxSizing" where
  "ToYogaBoxSizing ContentBox = YGBoxSizingContentBox"
| "ToYogaBoxSizing BorderBox = YGBoxSizingBorderBox"

text \<open>The three shapes of value a setter receives.\<close>

fun yg_of_lpa :: "LengthPercentageAuto \<Rightarrow> YGValue" where
  "yg_of_lpa LPA_Auto = YGAuto"
| "yg_of_lpa (LPA_Length v) = YGPoint v"
| "yg_of_lpa (LPA_Percentage v) = YGPercent v"

fun yg_of_lp :: "LengthPercentage \<Rightarrow> YGValue" where
  "yg_of_lp (LP_Length v) = YGPoint v"
| "yg_of_lp (LP_Percentage v) = YGPercent v"

fun SetYogaDimension :: "YGStyle \<Rightarrow> YGDimension \<Rightarrow> LengthPercentageAuto \<Rightarrow> YGStyle" where
  "SetYogaDimension node YGDimensionWidth val = node\<lparr>yg_width := yg_of_lpa val\<rparr>"
| "SetYogaDimension node YGDimensionHeight val = node\<lparr>yg_height := yg_of_lpa val\<rparr>"

fun SetYogaMinDimension :: "YGStyle \<Rightarrow> YGDimension \<Rightarrow> LengthPercentage \<Rightarrow> YGStyle" where
  "SetYogaMinDimension node YGDimensionWidth val = node\<lparr>yg_min_width := yg_of_lp val\<rparr>"
| "SetYogaMinDimension node YGDimensionHeight val = node\<lparr>yg_min_height := yg_of_lp val\<rparr>"

text \<open>
  The float literal \<^verbatim>\<open>1.0e20f\<close> of both max-dimension guards: the single-precision number
  nearest to \<open>10\<^sup>2\<^sup>0\<close>. No float lies between \<open>10\<^sup>2\<^sup>0\<close> and it, so a float is at least
  \<open>10\<^sup>2\<^sup>0\<close> exactly when it is at least \<open>large\<close>.
\<close>

definition large :: real where
  "large = 100000002004087734272"

definition SetYogaMaxDimension :: "YGStyle \<Rightarrow> YGDimension \<Rightarrow> LengthPercentage \<Rightarrow> YGStyle" where
  "SetYogaMaxDimension node dimen val =
     (case val of
        LP_Length v \<Rightarrow>
          if v > large then node
          else (case dimen of
                  YGDimensionWidth \<Rightarrow> node\<lparr>yg_max_width := YGPoint v\<rparr>
                | YGDimensionHeight \<Rightarrow> node\<lparr>yg_max_height := YGPoint v\<rparr>)
      | LP_Percentage v \<Rightarrow>
          (case dimen of
             YGDimensionWidth \<Rightarrow> node\<lparr>yg_max_width := YGPercent v\<rparr>
           | YGDimensionHeight \<Rightarrow> node\<lparr>yg_max_height := YGPercent v\<rparr>))"

definition SetYogaMargin :: "YGStyle \<Rightarrow> YGEdge \<Rightarrow> LengthPercentageAuto \<Rightarrow> YGStyle" where
  "SetYogaMargin node edge val = node\<lparr>yg_margin := (yg_margin node)(edge := yg_of_lpa val)\<rparr>"

definition SetYogaPadding :: "YGStyle \<Rightarrow> YGEdge \<Rightarrow> LengthPercentage \<Rightarrow> YGStyle" where
  "SetYogaPadding node edge val = node\<lparr>yg_padding := (yg_padding node)(edge := yg_of_lp val)\<rparr>"

definition SetYogaPosition :: "YGStyle \<Rightarrow> YGEdge \<Rightarrow> LengthPercentageAuto \<Rightarrow> YGStyle" where
  "SetYogaPosition node edge val = node\<lparr>yg_position := (yg_position node)(edge := yg_of_lpa val)\<rparr>"

definition SetYogaGap :: "YGStyle \<Rightarrow> YGGutter \<Rightarrow> LengthPercentage \<Rightarrow> YGStyle" where
  "SetYogaGap node gutter val = node\<lparr>yg_gap := (yg_gap node)(gutter := yg_of_lp val)\<rparr>"

definition YGNodeStyleSetBorder :: "YGStyle \<Rightarrow> YGEdge \<Rightarrow> real \<Rightarrow> YGStyle" where
  "YGNodeStyleSetBorder node edge v = node\<lparr>yg_border := (yg_border node)(edge := YGPoint v)\<rparr>"

text \<open>
  The last statements of \<^verbatim>\<open>ApplyYogaStyleToNode\<close>: the two overflow axes become the one
  overflow Yoga has.
\<close>

definition combined_overflow :: "Overflow \<Rightarrow> Overflow \<Rightarrow> Overflow" where
  "combined_overflow ox oy =
     (if oy = Overflow_Hidden \<or> ox = Overflow_Hidden then Overflow_Hidden
      else if oy = Overflow_Scroll \<or> oy = Overflow_Auto \<or> ox = Overflow_Scroll \<or> ox = Overflow_Auto
        then Overflow_Scroll
      else Overflow_Visible)"

definition ApplyYogaStyleToNode :: "YGStyle \<Rightarrow> ComputedValues \<Rightarrow> YGStyle" where
  "ApplyYogaStyleToNode node0 c =
     (let is_display_none = (cv_display c = Display_None);
          node = node0\<lparr>yg_display := (if is_display_none then YGDisplayNone else YGDisplayFlex)\<rparr>;
          node = node\<lparr>yg_box_sizing := ToYogaBoxSizing (cv_box_sizing c)\<rparr>;
          node = node\<lparr>yg_flex_direction := ToYogaFlexDirection (cv_flex_direction c)\<rparr>;
          node = node\<lparr>yg_flex_wrap := ToYogaWrap (cv_flex_wrap c)\<rparr>;
          node = node\<lparr>yg_justify_content := ToYogaJustify (cv_justify_content c)\<rparr>;
          node = node\<lparr>yg_align_content := ToYogaAlignContent (cv_align_content c)\<rparr>;
          node = node\<lparr>yg_align_items := ToYogaAlignItems (cv_align_items c)\<rparr>;
          node = node\<lparr>yg_align_self := ToYogaAlignSelf (cv_align_self c)\<rparr>;
          node = node\<lparr>yg_flex_grow := cv_flex_grow c\<rparr>;
          node = node\<lparr>yg_flex_shrink := cv_flex_shrink c\<rparr>;
          node = node\<lparr>yg_flex_basis := yg_of_lpa (cv_flex_basis c)\<rparr>;
          node = SetYogaDimension node YGDimensionWidth (cv_width c);
          node = SetYogaDimension node YGDimensionHeight (cv_height c);
          node = SetYogaMinDimension node YGDimensionWidth (cv_min_width c);
          node = SetYogaMinDimension node YGDimensionHeight (cv_min_height c);
          node = SetYogaMaxDimension node YGDimensionWidth (cv_max_width c);
          node = SetYogaMaxDimension node YGDimensionHeight (cv_max_height c);
          node = SetYogaMargin node YGEdgeTop (cv_margin_top c);
          node = SetYogaMargin node YGEdgeRight (cv_margin_right c);
          node = SetYogaMargin node YGEdgeBottom (cv_margin_bottom c);
          node = SetYogaMargin node YGEdgeLeft (cv_margin_left c);
          node = SetYogaPadding node YGEdgeTop (cv_padding_top c);
          node = SetYogaPadding node YGEdgeRight (cv_padding_right c);
          node = SetYogaPadding node YGEdgeBottom (cv_padding_bottom c);
          node = SetYogaPadding node YGEdgeLeft (cv_padding_left c);
          node = YGNodeStyleSetBorder node YGEdgeTop (real (cv_border_top_width c));
          node = YGNodeStyleSetBorder node YGEdgeRight (real (cv_border_right_width c));
          node = YGNodeStyleSetBorder node YGEdgeBottom (real (cv_border_bottom_width c));
          node = YGNodeStyleSetBorder node YGEdgeLeft (real (cv_border_left_width c));
          node = SetYogaGap node YGGutterRow (cv_row_gap c);
          node = SetYogaGap node YGGutterColumn (cv_column_gap c);
          node = node\<lparr>yg_position_type := ToYogaPositionType (cv_position c)\<rparr>;
          node = SetYogaPosition node YGEdgeTop (cv_top c);
          node = SetYogaPosition node YGEdgeRight (cv_right c);
          node = SetYogaPosition node YGEdgeBottom (cv_bottom c);
          node = SetYogaPosition node YGEdgeLeft (cv_left c)
      in node\<lparr>yg_overflow := ToYogaOverflow (combined_overflow (cv_overflow_x c) (cv_overflow_y c))\<rparr>)"

section \<open>Boxes (Box.h)\<close>

datatype BoxArea = Margin | Border | Padding | Content

datatype BoxEdge = Top | Right | Bottom | Left

text \<open>
  Modelled from the spec: the class \<^verbatim>\<open>Box\<close> is declared outside the source files at hand.
  A box is a content size and, for the margin, the border and the padding, one width per
  edge; the border area is the content area expanded by the padding and border edges. The
  position of an area is that of its top-left corner relative to the border area's.
\<close>

record Box =
  content :: Vector2f
  area_edges :: "BoxArea \<Rightarrow> BoxEdge \<Rightarrow> real"

definition Box_new :: Box where
  "Box_new = \<lparr>content = (0, 0), area_edges = (\<lambda>area edge. 0)\<rparr>"

definition SetContent :: "Box \<Rightarrow> Vector2f \<Rightarrow> Box" where
  "SetContent box v = box\<lparr>content := v\<rparr>"

definition SetEdge :: "Box \<Rightarrow> BoxArea \<Rightarrow> BoxEdge \<Rightarrow> real \<Rightarrow> Box" where
  "SetEdge box area edge v =
     box\<lparr>area_edges := (area_edges box)(area := (area_edges box area)(edge := v))\<rparr>"

definition GetEdge :: "Box \<Rightarrow> BoxArea \<Rightarrow> BoxEdge \<Rightarrow> real" where
  "GetEdge box area edge = area_edges box area edge"

fun GetPosition :: "Box \<Rightarrow> BoxArea \<Rightarrow> Vector2f" where
  "GetPosition box Margin = (- GetEdge box Margin Left, - GetEdge box Margin Top)"
| "GetPosition box Border = (0, 0)"
| "GetPosition box Padding = (GetEdge box Border Left, GetEdge box Border Top)"
| "GetPosition box Content =
     (GetEdge box Border Left + GetEdge box Padding Left,
      GetEdge box Border Top + GetEdge box Padding Top)"

definition edges_size :: "Box \<Rightarrow> BoxArea \<Rightarrow> Vector2f" where
  "edges_size box area =
     (GetEdge box area Left + GetEdge box area Right, GetEdge box area Top + GetEdge box area Bottom)"

fun GetSize :: "Box \<Rightarrow> BoxArea \<Rightarrow> Vector2f" where
  "GetSize box Content = content box"
| "GetSize box Padding = vadd (content box) (edges_size box Padding)"
| "GetSize box Border = vadd (vadd (content box) (edges_size box Padding)) (edges_size box Border)"
| "GetSize box Margin =
     vadd (vadd (vadd (content box) (edges_size box Padding)) (edges_size box Border))
       (edges_size box Margin)"

section \<open>Elements and text elements (Element.h, ElementText.h)\<close>

record FontMetrics =
  ascent :: real
  descent :: real

text \<open>
  The width handed to the line breaker is a float that may be \<^verbatim>\<open>+infinity\<close>.
\<close>

datatype MaxWidth = Width real | Unbounded

text \<open>
  The text service is outside the source files at hand, so a text element carries it:
  \<open>GenerateLine t line_begin maximum_line_width\<close> is what
  \<^verbatim>\<open>ElementText::GenerateLine\<close> writes to \<^verbatim>\<open>line\<close>, \<^verbatim>\<open>line_length\<close> and \<^verbatim>\<open>line_width\<close>, and
  the boolean it returns (the end of the text was reached); the other arguments are the
  same constants at both call sites. \<open>GetFontMetrics\<close> is \<open>None\<close> when the font face handle
  is null or no font engine is installed, and the engine's metrics of the handle
  otherwise. \<open>text_lines\<close> is the line list that \<^verbatim>\<open>ClearLines\<close> and \<^verbatim>\<open>AddLine\<close> change.
\<close>

record ElementText =
  GenerateLine :: "int \<Rightarrow> MaxWidth \<Rightarrow> string \<times> int \<times> real \<times> bool"
  GetFontMetrics :: "FontMetrics option"
  GetLineHeight :: real
  text_lines :: "(Vector2f \<times> string) list"

definition ClearLines :: "ElementText \<Rightarrow> ElementText" where
  "ClearLines t = t\<lparr>text_lines := []\<rparr>"

definition AddLine :: "ElementText \<Rightarrow> Vector2f \<Rightarrow> string \<Rightarrow> ElementText" where
  "AddLine t pos line = t\<lparr>text_lines := text_lines t @ [(pos, line)]\<rparr>"

text \<open>
  \<^verbatim>\<open>FontMetrics metrics{}\<close>, overwritten when the handle and the engine are there.
\<close>

definition metrics_of :: "ElementText \<Rightarrow> FontMetrics" where
  "metrics_of t = (case GetFontMetrics t of None \<Rightarrow> \<lparr>ascent = 0, descent = 0\<rparr> | Some m \<Rightarrow> m)"

text \<open>
  An element: its computed values, the text element it is when
  \<^verbatim>\<open>rmlui_dynamic_cast<ElementText*>\<close> succeeds, the dimensions and ratio that
  \<^verbatim>\<open>GetIntrinsicDimensions\<close> writes when it returns true, its children (a null child is
  \<open>None\<close>), and the geometry the Layout Applier writes: the offset given to \<^verbatim>\<open>SetOffset\<close>,
  the box given to \<^verbatim>\<open>SetBox\<close> and the size given to \<^verbatim>\<open>SetScrollableOverflowRectangle\<close>.
\<close>

record Geometry =
  relative_offset_base :: Vector2f
  box_of :: Box
  scrollable_overflow :: Vector2f

datatype Element = Element
  (GetComputedValues: ComputedValues)
  (as_text: "ElementText option")
  (GetIntrinsicDimensions: "(Vector2f \<times> real) option")
  (children: "Element option list")
  (geometry: Geometry)

definition GetNumChildren :: "Element \<Rightarrow> int" where
  "GetNumChildren element = int (length (children element))"

text \<open>
  Modelled from the spec: \<^verbatim>\<open>Element::GetRelativeOffset\<close> is declared outside the source
  files at hand. It is the position of an area of the element's box, from the offset that
  was set for the element's border area.
\<close>

definition GetRelativeOffset :: "Element \<Rightarrow> BoxArea \<Rightarrow> Vector2f" where
  "GetRelativeOffset element area =
     vadd (relative_offset_base (geometry element)) (GetPosition (box_of (geometry element)) area)"

section \<open>Yoga nodes\<close>

text \<open>
  A node of the tree handed to the solver: its style, its context (the element), whether
  the measure and the baseline callbacks were set (they are only ever set to
  \<open>YogaMeasureFunc\<close> and \<open>YogaBaselineFunc\<close>), and its children. A configuration is the
  style a new node starts with.
\<close>

datatype YGNode = YGNode
  (node_style: YGStyle)
  (YGNodeGetContext: "Element option")
  (has_measure_func: bool)
  (has_baseline_func: bool)
  (node_children: "YGNode list")

type_synonym YGConfig = YGStyle

definition YGNodeNewWithConfig :: "YGConfig \<Rightarrow> YGNode" where
  "YGNodeNewWithConfig config = YGNode config None False False []"

definition YGNodeGetChildCount :: "YGNode \<Rightarrow> nat" where
  "YGNodeGetChildCount node = length (node_children node)"

definition YGNodeInsertChild :: "YGNode \<Rightarrow> YGNode \<Rightarrow> nat \<Rightarrow> YGNode" where
  "YGNodeInsertChild node child i =
     YGNode (node_style node) (YGNodeGetContext node) (has_measure_func node) (has_baseline_func node)
       (take i (node_children node) @ child # drop i (node_children node))"

section \<open>Measurement Bridge (LayoutEngine.cpp)\<close>

definition YogaBaselineFunc :: "YGNode \<Rightarrow> real \<Rightarrow> real \<Rightarrow> real" where
  "YogaBaselineFunc node w h =
     (case YGNodeGetContext node of
        None \<Rightarrow> h
      | Some element \<Rightarrow>
          (case as_text element of
             Some text_element \<Rightarrow>
               (let metrics = metrics_of text_element;
                    line_height = max 0 (GetLineHeight text_element);
                    font_height = max 0 (ascent metrics + \<bar>descent metrics\<bar>);
                    leading = max 0 (line_height - font_height);
                    baseline = leading * 0.5 + ascent metrics
                in baseline)
           | None \<Rightarrow> h))"

definition max_iterations :: int where
  "max_iterations = 4096"

text \<open>
  The loop of the text branch of \<^verbatim>\<open>YogaMeasureFunc\<close>, from the state at the head of
  iteration \<open>it\<close> to the values of \<^verbatim>\<open>num_lines\<close> and \<^verbatim>\<open>max_line_width\<close> after the loop.
\<close>

function measure_loop ::
  "ElementText \<Rightarrow> MaxWidth \<Rightarrow> int \<Rightarrow> int \<Rightarrow> int \<Rightarrow> real \<Rightarrow> int \<times> real" where
  "measure_loop text_element maximum_line_width it line_begin num_lines max_line_width =
     (if it < max_iterations then
        (case GenerateLine text_element line_begin maximum_line_width of
           (line, line_length, line_width, reached_end) \<Rightarrow>
             if line_length \<le> 0 then (num_lines, max_line_width)
             else if reached_end then (num_lines + 1, max max_line_width line_width)
             else measure_loop text_element maximum_line_width (it + 1) (line_begin + line_length)
                    (num_lines + 1) (max max_line_width line_width))
      else (num_lines, max_line_width))"
  by pat_completeness auto
termination
  by (relation "measure (\<lambda>(t, w, it, b, n, m). nat (max_iterations - it))") auto

declare measure_loop.simps [simp del]

definition respect_mode :: "YGMeasureMode \<Rightarrow> real \<Rightarrow> real \<Rightarrow> real" where
  "respect_mode mode measured given =
     (if mode = YGMeasureModeExactly then max 0 given
      else if mode = YGMeasureModeAtMost then min measured (max 0 given)
      else measured)"

definition measure_text ::
  "ElementText \<Rightarrow> real \<Rightarrow> YGMeasureMode \<Rightarrow> real \<Rightarrow> YGMeasureMode \<Rightarrow> real \<times> real" where
  "measure_text text_element w width_mode h height_mode =
     (let has_wrap_width = (width_mode = YGMeasureModeExactly \<or> width_mode = YGMeasureModeAtMost);
          wrap_width = (if has_wrap_width then max 0 w else 0);
          max_width = (if has_wrap_width then Width wrap_width else Unbounded);
          (num_lines, max_line_width) = measure_loop text_element max_width 0 0 0 0;
          num_lines = (if num_lines = 0 then 1 else num_lines);
          metrics = metrics_of text_element;
          tight_height = max 0 (ascent metrics + \<bar>descent metrics\<bar>);
          measured_width = max_line_width;
          measured_height = real_of_int num_lines * tight_height
      in (respect_mode width_mode measured_width w, respect_mode height_mode measured_height h))"

definition measure_replaced ::
  "Vector2f \<Rightarrow> real \<Rightarrow> real \<Rightarrow> YGMeasureMode \<Rightarrow> real \<Rightarrow> YGMeasureMode \<Rightarrow> real \<times> real" where
  "measure_replaced intrinsic_dimensions intrinsic_ratio w width_mode h height_mode =
     (let width_definite = (width_mode = YGMeasureModeExactly \<or> width_mode = YGMeasureModeAtMost);
          height_definite = (height_mode = YGMeasureModeExactly \<or> height_mode = YGMeasureModeAtMost);
          measured_width = respect_mode width_mode (fst intrinsic_dimensions) w;
          measured_height = respect_mode height_mode (snd intrinsic_dimensions) h;
          (measured_width, measured_height) =
            (if intrinsic_ratio > 0 then
               (if width_definite \<and> \<not> height_definite
                  then (measured_width, measured_width / intrinsic_ratio)
                else if height_definite \<and> \<not> width_definite
                  then (measured_height * intrinsic_ratio, measured_height)
                else (measured_width, measured_height))
             else (measured_width, measured_height))
      in (max 0 measured_width, max 0 measured_height))"

definition YogaMeasureFunc ::
  "YGNode \<Rightarrow> real \<Rightarrow> YGMeasureMode \<Rightarrow> real \<Rightarrow> YGMeasureMode \<Rightarrow> real \<times> real" where
  "YogaMeasureFunc node w width_mode h height_mode =
     (case YGNodeGetContext node of
        None \<Rightarrow> (0, 0)
      | Some element \<Rightarrow>
          (case as_text element of
             Some text_element \<Rightarrow> measure_text text_element w width_mode h height_mode
           | None \<Rightarrow>
               (case GetIntrinsicDimensions element of
                  Some (intrinsic_dimensions, intrinsic_ratio) \<Rightarrow>
                    measure_replaced intrinsic_dimensions intrinsic_ratio w width_mode h height_mode
                | None \<Rightarrow> (0, 0))))"

section \<open>Tree Builder (LayoutEngine.cpp)\<close>

definition YGNodeSetContext :: "YGNode \<Rightarrow> Element \<Rightarrow> YGNode" where
  "YGNodeSetContext node element =
     YGNode (node_style node) (Some element) (has_measure_func node) (has_baseline_func node)
       (node_children node)"

definition YGNodeSetMeasureFunc :: "YGNode \<Rightarrow> YGNode" where
  "YGNodeSetMeasureFunc node =
     YGNode (node_style node) (YGNodeGetContext node) True (has_baseline_func node)
       (node_children node)"

definition YGNodeSetBaselineFunc :: "YGNode \<Rightarrow> YGNode" where
  "YGNodeSetBaselineFunc node =
     YGNode (node_style node) (YGNodeGetContext node) (has_measure_func node) True
       (node_children node)"

definition set_node_style :: "YGNode \<Rightarrow> YGStyle \<Rightarrow> YGNode" where
  "set_node_style node s =
     YGNode s (YGNodeGetContext node) (has_measure_func node) (has_baseline_func node)
       (node_children node)"

definition YGNodeStyleSetDirection :: "YGNode \<Rightarrow> YGDirection \<Rightarrow> YGNode" where
  "YGNodeStyleSetDirection node d = set_node_style node ((node_style node)\<lparr>yg_direction := d\<rparr>)"

text \<open>
  \<open>build_children cs config node\<close> is the loop over the children \<open>cs\<close> that are still to
  visit: a null child is skipped, any other child's tree is inserted as the last child of
  \<open>node\<close>.
\<close>

fun BuildYogaTreeRecursive :: "Element \<Rightarrow> YGConfig \<Rightarrow> YGNode"
  and build_children :: "Element option list \<Rightarrow> YGConfig \<Rightarrow> YGNode \<Rightarrow> YGNode" where
  "BuildYogaTreeRecursive (Element cv txt intr chs geo) config =
     (let element = Element cv txt intr chs geo;
          node = YGNodeNewWithConfig config;
          node = YGNodeSetContext node element;
          node = set_node_style node (ApplyYogaStyleToNode (node_style node) (GetComputedValues element));
          is_leaf = (GetNumChildren element = 0);
          is_text = (as_text element \<noteq> None);
          is_replaced = (GetIntrinsicDimensions element \<noteq> None);
          node =
            (if is_leaf \<and> (is_text \<or> is_replaced) then
               (let node = YGNodeSetMeasureFunc node
                in if is_text then YGNodeSetBaselineFunc node else node)
             else build_children chs config node)
      in YGNodeStyleSetDirection node (ToYogaDirection (cv_direction (GetComputedValues element))))"
| "build_children [] config node = node"
| "build_children (None # cs) config node = build_children cs config node"
| "build_children (Some child # cs) config node =
     build_children cs config
       (YGNodeInsertChild node (BuildYogaTreeRecursive child config) (YGNodeGetChildCount node))"

section \<open>Layout Applier (LayoutEngine.cpp)\<close>

definition text_baseline_offset :: "ElementText \<Rightarrow> real" where
  "text_baseline_offset text_element =
     (let metrics = metrics_of text_element;
          font_height = max 0 (ascent metrics + \<bar>descent metrics\<bar>);
          line_height = max 0 (GetLineHeight text_element);
          leading = max 0 (line_height - font_height)
      in real_of_int \<lfloor>leading * 0.5 + ascent metrics\<rfloor>)"

text \<open>
  The loop of \<^verbatim>\<open>GenerateTextLines\<close> from the head of iteration \<open>it\<close>. It returns the text
  element with the lines added, and the number of iterations that have run when the loop
  is left (each iteration makes one line-break request).
\<close>

function text_lines_loop ::
  "ElementText \<Rightarrow> real \<Rightarrow> real \<Rightarrow> real \<Rightarrow> int \<Rightarrow> int \<Rightarrow> int \<Rightarrow> ElementText \<times> int" where
  "text_lines_loop text_element maximum_line_width baseline_offset line_height it line_begin line_index =
     (if it < max_iterations then
        (case GenerateLine text_element line_begin (Width maximum_line_width) of
           (line, line_length, line_width, reached_end) \<Rightarrow>
             if line_length \<le> 0 then
               ((if line_index = 0 then AddLine text_element (0, baseline_offset) []
                 else text_element), it + 1)
             else
               (let baseline_y = baseline_offset + real_of_int line_index * line_height;
                    text_element = AddLine text_element (0, baseline_y) line
                in if reached_end then (text_element, it + 1)
                   else text_lines_loop text_element maximum_line_width baseline_offset line_height
                          (it + 1) (line_begin + line_length) (line_index + 1)))
      else (text_element, it))"
  by pat_completeness auto
termination
  by (relation "measure (\<lambda>(t, w, b, l, it, lb, li). nat (max_iterations - it))") auto

declare text_lines_loop.simps [simp del]

definition GenerateTextLines_run :: "ElementText \<Rightarrow> real \<Rightarrow> ElementText \<times> int" where
  "GenerateTextLines_run text_element available_width =
     (let text_element = ClearLines text_element;
          maximum_line_width = max 0 available_width;
          line_height = max 0 (GetLineHeight text_element);
          baseline_offset = text_baseline_offset text_element
      in text_lines_loop text_element maximum_line_width baseline_offset line_height 0 0 0)"

definition GenerateTextLines :: "ElementText \<Rightarrow> real \<Rightarrow> ElementText" where
  "GenerateTextLines text_element available_width =
     fst (GenerateTextLines_run text_element available_width)"

text \<open>
  What the Layout Applier reads of a solved node: the results of \<^verbatim>\<open>YGNodeLayoutGet*\<close> and
  the node's children.
\<close>

record YGLayout =
  layout_left :: real
  layout_top :: real
  layout_w :: real
  layout_h :: real
  layout_margin :: "YGEdge \<Rightarrow> real"
  layout_padding :: "YGEdge \<Rightarrow> real"
  layout_border :: "YGEdge \<Rightarrow> real"

datatype YGLayoutNode = YGLayoutNode (layout: YGLayout) (layout_children: "YGLayoutNode list")

text \<open>
  The straight-line parts of \<^verbatim>\<open>ApplyLayoutRecursive\<close>: the box built from the solved node,
  the step of the overflow accumulation for one child, and the scrollable overflow size
  from the accumulated overflow.
\<close>

definition solved_box :: "YGLayout \<Rightarrow> Box" where
  "solved_box l =
     (let layout_width = layout_w l;
          layout_height = layout_h l;
          margin_left = layout_margin l YGEdgeLeft;
          margin_top = layout_margin l YGEdgeTop;
          margin_right = layout_margin l YGEdgeRight;
          margin_bottom = layout_margin l YGEdgeBottom;
          padding_left = layout_padding l YGEdgeLeft;
          padding_top = layout_padding l YGEdgeTop;
          padding_right = layout_padding l YGEdgeRight;
          padding_bottom = layout_padding l YGEdgeBottom;
          border_left = layout_border l YGEdgeLeft;
          border_top = layout_border l YGEdgeTop;
          border_right = layout_border l YGEdgeRight;
          border_bottom = layout_border l YGEdgeBottom;
          box = Box_new;
          box = SetEdge box Margin Left margin_left;
          box = SetEdge box Margin Top margin_top;
          box = SetEdge box Margin Right margin_right;
          box = SetEdge box Margin Bottom margin_bottom;
          box = SetEdge box Border Left border_left;
          box = SetEdge box Border Top border_top;
          box = SetEdge box Border Right border_right;
          box = SetEdge box Border Bottom border_bottom;
          box = SetEdge box Padding Left padding_left;
          box = SetEdge box Padding Top padding_top;
          box = SetEdge box Padding Right padding_right;
          box = SetEdge box Padding Bottom padding_bottom;
          content_width = max 0 (layout_width - (padding_left + padding_right + border_left + border_right));
          content_height = max 0 (layout_height - (padding_top + padding_bottom + border_top + border_bottom))
      in SetContent box (content_width, content_height))"

definition expand_overflow :: "Vector2f \<Rightarrow> Vector2f \<Rightarrow> Element \<Rightarrow> Vector2f" where
  "expand_overflow content_overflow element_content_position child =
     (let child_border_pos_in_parent_border = GetRelativeOffset child Border;
          child_border_pos_in_parent_content =
            vsub child_border_pos_in_parent_border element_content_position;
          child_border_size = GetSize (box_of (geometry child)) Border
      in (max (fst content_overflow) (fst child_border_pos_in_parent_content + fst child_border_size),
          max (snd content_overflow) (snd child_border_pos_in_parent_content + snd child_border_size)))"

definition scrollable_overflow_size :: "YGLayout \<Rightarrow> Vector2f \<Rightarrow> Vector2f \<Rightarrow> Vector2f" where
  "scrollable_overflow_size l content_size content_overflow =
     (let padding_top_left = (layout_padding l YGEdgeLeft, layout_padding l YGEdgeTop);
          padding_bottom_right = (layout_padding l YGEdgeRight, layout_padding l YGEdgeBottom);
          padding_size = vadd (vadd content_size padding_top_left) padding_bottom_right
      in (max (fst padding_size) (fst padding_top_left + fst content_overflow),
          max (snd padding_size) (snd padding_top_left + snd content_overflow)))"

text \<open>
  \<open>apply_children cs ns element_content_position content_overflow\<close> is the loop over the
  common prefix of the element's children \<open>cs\<close> and the node's children \<open>ns\<close>, from the
  children that are still to visit and the overflow accumulated so far; it returns the
  children as they are after the loop and the accumulated overflow. The recursive call
  passes \<open>(0, 0)\<close> as the parent content position, as the source does. The offset parent
  handed to \<^verbatim>\<open>SetOffset\<close> is not kept: nothing that is read here depends on it.
\<close>

fun ApplyLayoutRecursive :: "Element \<Rightarrow> YGLayoutNode \<Rightarrow> Vector2f \<Rightarrow> Element"
  and apply_children ::
    "Element option list \<Rightarrow> YGLayoutNode list \<Rightarrow> Vector2f \<Rightarrow> Vector2f
       \<Rightarrow> Element option list \<times> Vector2f" where
  "ApplyLayoutRecursive (Element cv txt intr chs geo) node parent_content_position =
     (let box = solved_box (layout node);
          border_position =
            vadd parent_content_position (layout_left (layout node), layout_top (layout node));
          element_content_position = GetPosition box Content;
          looped = apply_children chs (layout_children node) element_content_position (0, 0);
          overflow_size = scrollable_overflow_size (layout node) (content box) (snd looped);
          txt' = (case txt of
                    Some text_element \<Rightarrow> Some (GenerateTextLines text_element (fst (content box)))
                  | None \<Rightarrow> None)
      in Element cv txt' intr (fst looped)
           \<lparr>relative_offset_base = border_position, box_of = box,
            scrollable_overflow = overflow_size\<rparr>)"
| "apply_children [] ns element_content_position content_overflow = ([], content_overflow)"
| "apply_children (c # cs) [] element_content_position content_overflow = (c # cs, content_overflow)"
| "apply_children (None # cs) (child_node # ns) element_content_position content_overflow =
     (let looped = apply_children cs ns element_content_position content_overflow
      in (None # fst looped, snd looped))"
| "apply_children (Some child # cs) (child_node # ns) element_content_position content_overflow =
     (let child = ApplyLayoutRecursive child child_node (0, 0);
          content_overflow = expand_overflow content_overflow element_content_position child;
          looped = apply_children cs ns element_content_position content_overflow
      in (Some child # fst looped, snd looped))"

section \<open>Box Model Builder (LayoutDetails.cpp)\<close>

datatype BuildBoxMode = Inline | UnalignedBlock | Block

text \<open>
  Modelled from the spec: \<^verbatim>\<open>ResolveValue\<close> and \<^verbatim>\<open>ResolveValueOr\<close> are declared outside the
  source files at hand. They resolve a length, percentage or auto value against a base: a
  length is itself, a percentage is that many hundredths of the base, and auto is the
  default given.
\<close>

definition ResolveValue :: "LengthPercentage \<Rightarrow> real \<Rightarrow> real" where
  "ResolveValue v base_value =
     (case v of LP_Length x \<Rightarrow> x | LP_Percentage x \<Rightarrow> x * 0.01 * base_value)"

definition ResolveValueOr :: "LengthPercentageAuto \<Rightarrow> real \<Rightarrow> real \<Rightarrow> real" where
  "ResolveValueOr v base_value default_value =
     (case v of
        LPA_Auto \<Rightarrow> default_value
      | LPA_Length x \<Rightarrow> x
      | LPA_Percentage x \<Rightarrow> x * 0.01 * base_value)"

text \<open>The two overloads of \<^verbatim>\<open>ResolveAgainstWidth\<close>; a length or percentage is never auto.\<close>

definition ResolveAgainstWidth_auto :: "LengthPercentageAuto \<Rightarrow> real \<Rightarrow> real \<Rightarrow> real" where
  "ResolveAgainstWidth_auto v containing_width default_value =
     ResolveValueOr v containing_width default_value"

definition ResolveAgainstWidth :: "LengthPercentage \<Rightarrow> real \<Rightarrow> real \<Rightarrow> real" where
  "ResolveAgainstWidth v containing_width default_value = ResolveValue v containing_width"

definition ClampMaxValue :: "real \<Rightarrow> real" where
  "ClampMaxValue v = (if v \<ge> large then - 1 else v)"

text \<open>
  \<^verbatim>\<open>BuildBox\<close> treats the width and the height by the same statements, with the names
  exchanged: the size resolved against the containing block (negative for auto), set to
  auto in inline mode, reduced by padding and border under border-box sizing, and clamped
  to the minimum and maximum when definite.
\<close>

definition content_dimension ::
  "LengthPercentageAuto \<Rightarrow> LengthPercentage \<Rightarrow> LengthPercentage \<Rightarrow> BoxSizing \<Rightarrow> BuildBoxMode
     \<Rightarrow> real \<Rightarrow> real \<Rightarrow> real" where
  "content_dimension size_v min_v max_v sizing box_mode cb border_padding =
     (let content_size = ResolveValueOr size_v cb (- 1);
          content_size = (if box_mode = Inline then - 1 else content_size);
          content_size =
            (if sizing = BorderBox \<and> content_size \<ge> 0 then max 0 (content_size - border_padding)
             else content_size)
      in if content_size \<ge> 0 then
           (let min_s = ResolveValue min_v cb;
                max_s = ResolveValue max_v cb;
                max_s = ClampMaxValue max_s;
                content_size = max content_size min_s
            in if max_s \<ge> 0 then min content_size max_s else content_size)
         else content_size)"

text \<open>
  The left and right margins of \<^verbatim>\<open>BuildBox\<close>: resolved (auto as 0), set to 0 in inline
  mode, and then the horizontal auto margins.
\<close>

definition horizontal_margins ::
  "LengthPercentageAuto \<Rightarrow> LengthPercentageAuto \<Rightarrow> real \<Rightarrow> real \<Rightarrow> real \<Rightarrow> BuildBoxMode
     \<Rightarrow> real \<times> real" where
  "horizontal_margins ml mr cb_width content_width border_padding_x box_mode =
     (let margin_left_auto = (ml = LPA_Auto);
          margin_right_auto = (mr = LPA_Auto);
          margin_left = (if margin_left_auto then 0 else ResolveAgainstWidth_auto ml cb_width 0);
          margin_right = (if margin_right_auto then 0 else ResolveAgainstWidth_auto mr cb_width 0);
          margin_left = (if box_mode = Inline then 0 else margin_left);
          margin_right = (if box_mode = Inline then 0 else margin_right)
      in if (margin_left_auto \<or> margin_right_auto) \<and> content_width \<ge> 0 \<and> cb_width \<ge> 0
            \<and> box_mode = Block then
           (let fixed = content_width + border_padding_x + (if margin_left_auto then 0 else margin_left)
                  + (if margin_right_auto then 0 else margin_right);
                remaining = cb_width - fixed
            in if remaining > 0 then
                 (if margin_left_auto \<and> margin_right_auto then (remaining * 0.5, remaining * 0.5)
                  else if margin_left_auto then (remaining, margin_right)
                  else if margin_right_auto then (margin_left, remaining)
                  else (margin_left, margin_right))
               else (margin_left, margin_right))
         else (margin_left, margin_right))"

definition BuildBox :: "Vector2f \<Rightarrow> Element option \<Rightarrow> BuildBoxMode \<Rightarrow> Box" where
  "BuildBox containing_block element box_mode =
     (case element of
        None \<Rightarrow> SetContent Box_new containing_block
      | Some e \<Rightarrow>
          (let c = GetComputedValues e;
               cb_width = fst containing_block;
               cb_height = snd containing_block;
               padding_top = ResolveAgainstWidth (cv_padding_top c) cb_width 0;
               padding_right = ResolveAgainstWidth (cv_padding_right c) cb_width 0;
               padding_bottom = ResolveAgainstWidth (cv_padding_bottom c) cb_width 0;
               padding_left = ResolveAgainstWidth (cv_padding_left c) cb_width 0;
               border_top = real (cv_border_top_width c);
               border_right = real (cv_border_right_width c);
               border_bottom = real (cv_border_bottom_width c);
               border_left = real (cv_border_left_width c);
               border_padding_x = padding_left + padding_right + border_left + border_right;
               border_padding_y = padding_top + padding_bottom + border_top + border_bottom;
               margin_top = (if cv_margin_top c = LPA_Auto then 0
                             else ResolveAgainstWidth_auto (cv_margin_top c) cb_width 0);
               margin_bottom = (if cv_margin_bottom c = LPA_Auto then 0
                                else ResolveAgainstWidth_auto (cv_margin_bottom c) cb_width 0);
               content_width = content_dimension (cv_width c) (cv_min_width c) (cv_max_width c)
                                 (cv_box_sizing c) box_mode cb_width border_padding_x;
               content_height = content_dimension (cv_height c) (cv_min_height c) (cv_max_height c)
                                  (cv_box_sizing c) box_mode cb_height border_padding_y;
               margins = horizontal_margins (cv_margin_left c) (cv_margin_right c) cb_width
                           content_width border_padding_x box_mode;
               margin_left = fst margins;
               margin_right = snd margins;
               box = SetContent Box_new (content_width, content_height);
               box = SetEdge box Padding Top padding_top;
               box = SetEdge box Padding Right padding_right;
               box = SetEdge box Padding Bottom padding_bottom;
               box = SetEdge box Padding Left padding_left;
               box = SetEdge box Border Top border_top;
               box = SetEdge box Border Right border_right;
               box = SetEdge box Border Bottom border_bottom;
               box = SetEdge box Border Left border_left;
               box = SetEdge box Margin Top margin_top;
               box = SetEdge box Margin Right margin_right;
               box = SetEdge box Margin Bottom margin_bottom
           in SetEdge box Margin Left margin_left))"

section \<open>Font faces (FontFace.cpp)\<close>

text \<open>
  An \<^verbatim>\<open>int\<close> is a 32-bit word read as two's complement; \<^verbatim>\<open>Math::Max\<close> compares the signed
  values. The cast of a non-negative \<^verbatim>\<open>int\<close> to \<^verbatim>\<open>uint32_t\<close> keeps the word.
\<close>

definition Math_Max :: "32 word \<Rightarrow> 32 word \<Rightarrow> 32 word" where
  "Math_Max a b = (if sint a < sint b then b else a)"

definition MakeHandleKey :: "32 word \<Rightarrow> 32 word \<Rightarrow> 64 word" where
  "MakeHandleKey sz synthetic_weight_delta =
     (let u_size = Math_Max sz 0;
          u_delta = Math_Max synthetic_weight_delta 0
      in push_bit 32 (ucast u_size :: 64 word) OR (ucast u_delta :: 64 word))"

text \<open>
  A font face holds its FreeType face (0 when released) and the map of its handles. A
  handle pointer is an address, \<open>None\<close> for \<^verbatim>\<open>nullptr\<close>; the handle objects live in a heap,
  where \<^verbatim>\<open>MakeUnique\<close> takes the next free address. The class of the handles is outside
  the source files at hand: \<open>Initialize face sz load_default_glyphs delta\<close> is the
  initialised handle, or \<open>None\<close> when \<^verbatim>\<open>FontFaceHandleDefault::Initialize\<close> returns false.
\<close>

datatype FontStyle = FontStyle_Normal | FontStyle_Italic

record FontFace =
  ff_style :: FontStyle
  ff_weight :: nat
  handles :: "64 word \<rightharpoonup> nat option"
  face :: nat

record 'h Heap =
  next_free :: nat
  objects :: "nat \<rightharpoonup> 'h"

definition GetHandle ::
  "(nat \<Rightarrow> 32 word \<Rightarrow> bool \<Rightarrow> 32 word \<Rightarrow> 'h option) \<Rightarrow> FontFace \<Rightarrow> 'h Heap \<Rightarrow> 32 word \<Rightarrow> bool \<Rightarrow> 32 word
     \<Rightarrow> nat option \<times> FontFace \<times> 'h Heap" where
  "GetHandle Initialize ff heap sz load_default_glyphs synthetic_weight_delta0 =
     (let synthetic_weight_delta = Math_Max synthetic_weight_delta0 0;
          key = MakeHandleKey sz synthetic_weight_delta
      in case handles ff key of
           Some p \<Rightarrow> (p, ff, heap)
         | None \<Rightarrow>
             if face ff = 0 then (None, ff, heap)
             else
               (let a = next_free heap
                in case Initialize (face ff) sz load_default_glyphs synthetic_weight_delta of
                     None \<Rightarrow>
                       (None, ff\<lparr>handles := (handles ff)(key \<mapsto> None)\<rparr>, heap\<lparr>next_free := a + 1\<rparr>)
                   | Some h \<Rightarrow>
                       (Some a, ff\<lparr>handles := (handles ff)(key \<mapsto> Some a)\<rparr>,
                        heap\<lparr>next_free := a + 1, objects := (objects heap)(a \<mapsto> h)\<rparr>)))"

definition ReleaseFontResources :: "FontFace \<Rightarrow> FontFace" where
  "ReleaseFontResources ff = ff\<lparr>handles := Map.empty\<rparr>"

section \<open>The measured size of a text leaf, as the specification words it\<close>

text \<open>
  The lines a text service generates at a maximum width: line-break requests from the
  start of the text, each starting where the line before ended, until a request consumes
  nothing, the end of the text is reached, or the iteration cap is. A line is its text,
  its length and its width.
\<close>

function spec_generated_lines ::
  "(int \<Rightarrow> MaxWidth \<Rightarrow> string \<times> int \<times> real \<times> bool) \<Rightarrow> MaxWidth \<Rightarrow> int \<Rightarrow> int
     \<Rightarrow> (string \<times> int \<times> real) list" where
  "spec_generated_lines generate maximum_line_width it line_begin =
     (if it < max_iterations then
        (case generate line_begin maximum_line_width of
           (line, line_length, line_width, reached_end) \<Rightarrow>
             if line_length \<le> 0 then []
             else if reached_end then [(line, line_length, line_width)]
             else (line, line_length, line_width)
                    # spec_generated_lines generate maximum_line_width (it + 1) (line_begin + line_length))
      else [])"
  by pat_completeness auto
termination
  by (relation "measure (\<lambda>(g, w, it, b). nat (max_iterations - it))") auto

declare spec_generated_lines.simps [simp del]

text \<open>
  The width of the requests: the width constraint (not below 0) in exact and at-most
  mode, an infinite width when unconstrained.
\<close>

definition spec_wrap_width :: "YGMeasureMode \<Rightarrow> real \<Rightarrow> MaxWidth" where
  "spec_wrap_width width_mode w =
     (case width_mode of
        YGMeasureModeUndefined \<Rightarrow> Unbounded
      | YGMeasureModeExactly \<Rightarrow> Width (max 0 w)
      | YGMeasureModeAtMost \<Rightarrow> Width (max 0 w))"

definition spec_max_line_width :: "(string \<times> int \<times> real) list \<Rightarrow> real" where
  "spec_max_line_width ls = (if ls = [] then 0 else Max (set (map (\<lambda>l. snd (snd l)) ls)))"

definition spec_line_count :: "(string \<times> int \<times> real) list \<Rightarrow> nat" where
  "spec_line_count ls = max 1 (length ls)"

definition spec_tight_line_height :: "ElementText \<Rightarrow> real" where
  "spec_tight_line_height t = ascent (metrics_of t) + \<bar>descent (metrics_of t)\<bar>"

definition spec_natural_size :: "ElementText \<Rightarrow> MaxWidth \<Rightarrow> real \<times> real" where
  "spec_natural_size t maximum_line_width =
     (let ls = spec_generated_lines (GenerateLine t) maximum_line_width 0 0
      in (spec_max_line_width ls, real (spec_line_count ls) * spec_tight_line_height t))"

definition spec_clamp :: "YGMeasureMode \<Rightarrow> real \<Rightarrow> real \<Rightarrow> real" where
  "spec_clamp mode natural given =
     (case mode of
        YGMeasureModeExactly \<Rightarrow> given
      | YGMeasureModeAtMost \<Rightarrow> min natural given
      | YGMeasureModeUndefined \<Rightarrow> natural)"

definition spec_text_measure ::
  "ElementText \<Rightarrow> real \<Rightarrow> YGMeasureMode \<Rightarrow> real \<Rightarrow> YGMeasureMode \<Rightarrow> real \<times> real" where
  "spec_text_measure t w width_mode h height_mode =
     (let natural = spec_natural_size t (spec_wrap_width width_mode w)
      in (max 0 (spec_clamp width_mode (fst natural) w),
          max 0 (spec_clamp height_mode (snd natural) h)))"

text \<open>
  The lines of a text element after regeneration, from the generated lines: line \<open>i\<close>
  stands at \<open>x = 0\<close> and \<open>y = baseline offset + i \<times> line height\<close>.
\<close>

fun placed_lines :: "real \<Rightarrow> real \<Rightarrow> int \<Rightarrow> (string \<times> int \<times> real) list \<Rightarrow> (Vector2f \<times> string) list" where
  "placed_lines baseline_offset line_height line_index [] = []"
| "placed_lines baseline_offset line_height line_index (l # ls) =
     ((0, baseline_offset + real_of_int line_index * line_height), fst l)
       # placed_lines baseline_offset line_height (line_index + 1) ls"

section \<open>Sample inputs\<close>

text \<open>
  A text service for running the definitions: every character is 10 wide, and a line
  takes as many of the remaining characters as fit the maximum width.
\<close>

definition sample_GenerateLine :: "string \<Rightarrow> int \<Rightarrow> MaxWidth \<Rightarrow> string \<times> int \<times> real \<times> bool" where
  "sample_GenerateLine s line_begin maximum_line_width =
     (let rest = drop (nat line_begin) s;
          fit = (case maximum_line_width of
                   Unbounded \<Rightarrow> length rest
                 | Width x \<Rightarrow> min (length rest) (nat \<lfloor>x / 10\<rfloor>))
      in (take fit rest, int fit, 10 * real fit, fit = length rest))"

definition sample_text :: "string \<Rightarrow> ElementText" where
  "sample_text s =
     \<lparr>GenerateLine = sample_GenerateLine s,
      GetFontMetrics = Some \<lparr>ascent = 10, descent = - 3\<rparr>,
      GetLineHeight = 16,
      text_lines = []\<rparr>"

definition sample_computed :: ComputedValues where
  "sample_computed =
     \<lparr>cv_display = Display_Block, cv_box_sizing = ContentBox, cv_flex_direction = Row,
      cv_flex_wrap = Nowrap, cv_justify_content = JC_FlexStart, cv_align_content = AC_Stretch,
      cv_align_items = AI_Stretch, cv_align_self = AS_Auto, cv_flex_grow = 0, cv_flex_shrink = 1,
      cv_flex_basis = LPA_Auto, cv_width = LPA_Auto, cv_height = LPA_Auto,
      cv_min_width = LP_Length 0, cv_min_height = LP_Length 0,
      cv_max_width = LP_Length 340282346638528859811704183484516925440,
      cv_max_height = LP_Length 340282346638528859811704183484516925440,
      cv_margin_top = LPA_Length 0, cv_margin_right = LPA_Length 0,
      cv_margin_bottom = LPA_Length 0, cv_margin_left = LPA_Length 0,
      cv_padding_top = LP_Length 0, cv_padding_right = LP_Length 0,
      cv_padding_bottom = LP_Length 0, cv_padding_left = LP_Length 0,
      cv_border_top_width = 0, cv_border_right_width = 0,
      cv_border_bottom_width = 0, cv_border_left_width = 0,
      cv_row_gap = LP_Length 0, cv_column_gap = LP_Length 0,
      cv_position = Static, cv_top = LPA_Auto, cv_right = LPA_Auto,
      cv_bottom = LPA_Auto, cv_left = LPA_Auto,
      cv_overflow_x = Overflow_Visible, cv_overflow_y = Overflow_Visible,
      cv_direction = Direction_Auto\<rparr>"

definition sample_config :: YGConfig where
  "sample_config =
     \<lparr>yg_display = YGDisplayFlex, yg_box_sizing = YGBoxSizingBorderBox,
      yg_flex_direction = YGFlexDirectionRow, yg_flex_wrap = YGWrapNoWrap,
      yg_justify_content = YGJustifyFlexStart, yg_align_content = YGAlignStretch,
      yg_align_items = YGAlignStretch, yg_align_self = YGAlignAuto,
      yg_flex_grow = 0, yg_flex_shrink = 1, yg_flex_basis = YGAuto,
      yg_width = YGAuto, yg_height = YGAuto,
      yg_min_width = YGUndefined, yg_min_height = YGUndefined,
      yg_max_width = YGUndefined, yg_max_height = YGUndefined,
      yg_margin = (\<lambda>e. YGUndefined), yg_padding = (\<lambda>e. YGUndefined),
      yg_border = (\<lambda>e. YGUndefined), yg_gap = (\<lambda>g. YGUndefined),
      yg_position_type = YGPositionTypeRelative, yg_position = (\<lambda>e. YGUndefined),
      yg_overflow = YGOverflowVisible, yg_direction = YGDirectionInherit\<rparr>"

definition sample_geometry :: Geometry where
  "sample_geometry =
     \<lparr>relative_offset_base = (0, 0), box_of = Box_new, scrollable_overflow = (0, 0)\<rparr>"

definition sample_element :: Element where
  "sample_element = Element sample_computed None None [] sample_geometry"

definition sample_text_element :: "string \<Rightarrow> Element" where
  "sample_text_element s = Element sample_computed (Some (sample_text s)) None [] sample_geometry"

definition tight_text :: "string \<Rightarrow> ElementText" where
  "tight_text s = (sample_text s)\<lparr>GetLineHeight := 0\<rparr>"

definition sample_image :: Element where
  "sample_image = Element sample_computed None (Some ((200, 100), 2)) [] sample_geometry"

definition node_of :: "Element \<Rightarrow> YGNode" where
  "node_of element = YGNodeSetContext (YGNodeNewWithConfig sample_config) element"

definition centered_element :: Element where
  "centered_element =
     Element (sample_computed\<lparr>cv_width := LPA_Length 100, cv_margin_left := LPA_Auto,
                             cv_margin_right := LPA_Auto\<rparr>)
       None None [] sample_geometry"

definition pulled_element :: Element where
  "pulled_element =
     Element (sample_computed\<lparr>cv_width := LPA_Length 0, cv_margin_left := LPA_Length (- 100),
                             cv_margin_right := LPA_Auto\<rparr>)
       None None [] sample_geometry"

definition text_with_child :: Element where
  "text_with_child =
     Element sample_computed (Some (sample_text ''ab'')) None [Some sample_element] sample_geometry"

definition sample_layout :: YGLayout where
  "sample_layout =
     \<lparr>layout_left = 5, layout_top = 7, layout_w = 100, layout_h = 40,
      layout_margin = (\<lambda>e. 0), layout_padding = (\<lambda>e. 4), layout_border = (\<lambda>e. 1)\<rparr>"

definition sample_face :: FontFace where
  "sample_face = \<lparr>ff_style = FontStyle_Normal, ff_weight = 400, handles = Map.empty, face = 1\<rparr>"

definition sample_heap :: "unit Heap" where
  "sample_heap = \<lparr>next_free = 1, objects = Map.empty\<rparr>"

section \<open>Style Adapter: max dimensions and overflow\<close>

lemma SetYogaMaxDimension_above:
  "v > large \<Longrightarrow> SetYogaMaxDimension node d (LP_Length v) = node"
  by (simp add: SetYogaMaxDimension_def)

lemma ApplyYogaStyleToNode_max_width:
  "yg_max_width (ApplyYogaStyleToNode node c) =
     yg_max_width (SetYogaMaxDimension node YGDimensionWidth (cv_max_width c))"
  by (cases "cv_max_width c"; cases "cv_max_height c";
      simp add: ApplyYogaStyleToNode_def Let_def SetYogaMaxDimension_def SetYogaMargin_def
        SetYogaPadding_def SetYogaPosition_def SetYogaGap_def YGNodeStyleSetBorder_def)

text \<open>
  In the Box Model Builder a maximum at or above the sentinel leaves the content size as
  it is without a maximum: only the minimum is applied.
\<close>

lemma content_dimension_no_max:
  "v \<ge> large \<Longrightarrow>
   content_dimension s mn (LP_Length v) sizing m cb bp =
     (let content_size = ResolveValueOr s cb (- 1);
          content_size = (if m = Inline then - 1 else content_size);
          content_size = (if sizing = BorderBox \<and> content_size \<ge> 0
                          then max 0 (content_size - bp) else content_size)
      in if content_size \<ge> 0 then max content_size (ResolveValue mn cb) else content_size)"
  by (simp add: content_dimension_def Let_def ClampMaxValue_def ResolveValue_def)

text \<open>
  C1. A max-width or max-height that is a length at or above the sentinel \<^verbatim>\<open>1.0e20\<close> is
  applied as a max constraint neither by the Style Adapter nor by the Box Model Builder.
  The Box Model Builder applies none for every such length (\<open>content_dimension_no_max\<close>),
  and the Style Adapter applies none for every length above the sentinel
  (\<open>SetYogaMaxDimension_above\<close>). At the sentinel itself the two differ. The Style
  Adapter, whose guard is \<^verbatim>\<open>value.value > 1.0e20f\<close>, sets the length as the max-width of
  the node, where a length one greater leaves the max-width undefined. The Box Model
  Builder, whose guard is \<^verbatim>\<open>v >= large\<close>, lets a content width of twice the sentinel
  stand under a max-width of the sentinel.
\<close>

theorem max_dimension_at_sentinel:
  "yg_max_width (ApplyYogaStyleToNode sample_config
       (sample_computed\<lparr>cv_max_width := LP_Length large\<rparr>)) = YGPoint large
   \<and> yg_max_width (ApplyYogaStyleToNode sample_config
       (sample_computed\<lparr>cv_max_width := LP_Length (large + 1)\<rparr>)) = YGUndefined
   \<and> fst (content (BuildBox (0, 0)
       (Some (Element (sample_computed\<lparr>cv_width := LPA_Length (2 * large),
                                       cv_max_width := LP_Length large\<rparr>)
                None None [] sample_geometry)) Block)) = 2 * large"
  apply (intro conjI)
    apply (simp add: ApplyYogaStyleToNode_max_width SetYogaMaxDimension_def sample_computed_def
      sample_config_def)
   apply (simp add: ApplyYogaStyleToNode_max_width SetYogaMaxDimension_def sample_computed_def
      sample_config_def)
  apply (simp add: BuildBox_def Let_def SetEdge_def SetContent_def Box_new_def
      content_dimension_def ResolveValue_def ResolveValueOr_def ClampMaxValue_def
      sample_computed_def large_def)
  done

text \<open>
  C2. The Style Adapter collapses the two overflow axes to the one overflow of the node:
  hidden if either axis is hidden; otherwise scroll if either axis is scroll or auto;
  otherwise visible.
\<close>

theorem overflow_axes_collapse:
  "yg_overflow (ApplyYogaStyleToNode node c) =
     (if cv_overflow_x c = Overflow_Hidden \<or> cv_overflow_y c = Overflow_Hidden
        then YGOverflowHidden
      else if cv_overflow_x c = Overflow_Scroll \<or> cv_overflow_x c = Overflow_Auto
              \<or> cv_overflow_y c = Overflow_Scroll \<or> cv_overflow_y c = Overflow_Auto
        then YGOverflowScroll
      else YGOverflowVisible)"
  by (cases "cv_overflow_x c"; cases "cv_overflow_y c";
      simp add: ApplyYogaStyleToNode_def Let_def combined_overflow_def)

text \<open>
  The three pairs the specification lists: (hidden, visible) is hidden, (auto, visible)
  is scroll, (visible, visible) is visible.
\<close>

theorem overflow_axes_collapse_witness:
  "yg_overflow (ApplyYogaStyleToNode sample_config
      (sample_computed\<lparr>cv_overflow_x := Overflow_Hidden, cv_overflow_y := Overflow_Visible\<rparr>))
     = YGOverflowHidden
   \<and> yg_overflow (ApplyYogaStyleToNode sample_config
      (sample_computed\<lparr>cv_overflow_x := Overflow_Auto, cv_overflow_y := Overflow_Visible\<rparr>))
     = YGOverflowScroll
   \<and> yg_overflow (ApplyYogaStyleToNode sample_config
      (sample_computed\<lparr>cv_overflow_x := Overflow_Visible, cv_overflow_y := Overflow_Visible\<rparr>))
     = YGOverflowVisible"
  using overflow_axes_collapse [of sample_config
          "sample_computed\<lparr>cv_overflow_x := Overflow_Hidden, cv_overflow_y := Overflow_Visible\<rparr>"]
        overflow_axes_collapse [of sample_config
          "sample_computed\<lparr>cv_overflow_x := Overflow_Auto, cv_overflow_y := Overflow_Visible\<rparr>"]
        overflow_axes_collapse [of sample_config
          "sample_computed\<lparr>cv_overflow_x := Overflow_Visible, cv_overflow_y := Overflow_Visible\<rparr>"]
  by simp

section \<open>Measurement Bridge: replaced leaves\<close>

text \<open>
  C4. For a replaced leaf whose intrinsic ratio is positive: when the width is constrained
  (exact or at-most) and the height is not, the height is the constrained width divided by
  the ratio; when the height is constrained and the width is not, the width is the
  constrained height times the ratio; both results are floored at 0.
\<close>

theorem replaced_leaf_aspect_ratio:
  assumes "YGNodeGetContext node = Some element" and "as_text element = None"
    and "GetIntrinsicDimensions element = Some ((iw, ih), ratio)" and "ratio > 0"
  shows "(width_mode \<noteq> YGMeasureModeUndefined \<and> height_mode = YGMeasureModeUndefined \<longrightarrow>
            YogaMeasureFunc node w width_mode h height_mode =
              (let constrained =
                     (if width_mode = YGMeasureModeExactly then max 0 w else min iw (max 0 w))
               in (max 0 constrained, max 0 (constrained / ratio))))
       \<and> (height_mode \<noteq> YGMeasureModeUndefined \<and> width_mode = YGMeasureModeUndefined \<longrightarrow>
            YogaMeasureFunc node w width_mode h height_mode =
              (let constrained =
                     (if height_mode = YGMeasureModeExactly then max 0 h else min ih (max 0 h))
               in (max 0 (constrained * ratio), max 0 constrained)))"
  using assms
  by (cases width_mode; cases height_mode;
      simp add: YogaMeasureFunc_def measure_replaced_def respect_mode_def Let_def)

text \<open>
  Intrinsic size (200, 100) with ratio 2, the width constrained exactly to 100 and the
  height unconstrained: the measured height is 50.
\<close>

theorem replaced_leaf_aspect_ratio_witness:
  "YogaMeasureFunc (node_of sample_image) 100 YGMeasureModeExactly 0 YGMeasureModeUndefined
     = (100, 50)"
  using replaced_leaf_aspect_ratio [of "node_of sample_image" sample_image 200 100 2
          YGMeasureModeExactly YGMeasureModeUndefined 100 0]
  by (simp add: node_of_def sample_image_def YGNodeSetContext_def YGNodeNewWithConfig_def)

section \<open>Measurement Bridge: text leaves\<close>

text \<open>
  The loop of the text branch counts the generated lines and folds the maximum over
  their widths.
\<close>

lemma measure_loop_lines:
  "measure_loop t mw it b n m =
     (n + int (length (spec_generated_lines (GenerateLine t) mw it b)),
      fold max (map (\<lambda>l. snd (snd l)) (spec_generated_lines (GenerateLine t) mw it b)) m)"
  by (induction t mw it b n m rule: measure_loop.induct; subst measure_loop.simps;
      subst (1 2) spec_generated_lines.simps)
     (auto split: prod.splits simp: max.commute)

lemma fold_max_Max:
  "fold max ws (0::real) = (if ws = [] then 0 else max 0 (Max (set ws)))"
proof (cases ws)
  case Nil
  then show ?thesis by simp
next
  case (Cons a as)
  have "fold max ws 0 = Max (set (0 # ws))"
    by (simp only: Max.set_eq_fold)
  also have "\<dots> = max 0 (Max (set ws))"
    using Cons by simp
  finally show ?thesis using Cons by simp
qed

lemma respect_mode_floor:
  "respect_mode mode (max 0 natural) given = max 0 (spec_clamp mode natural given)"
  by (cases mode) (auto simp add: respect_mode_def spec_clamp_def)

lemma natural_width_floor:
  "fold max (map (\<lambda>l. snd (snd l)) ls) 0 = max 0 (spec_max_line_width ls)"
  by (simp add: fold_max_Max spec_max_line_width_def)

lemma natural_height_floor:
  "real_of_int (if int (length ls) = 0 then 1 else int (length ls))
       * max 0 (ascent (metrics_of t) + \<bar>descent (metrics_of t)\<bar>)
     = max 0 (real (spec_line_count ls) * spec_tight_line_height t)"
  by (cases ls)
     (simp_all add: spec_tight_line_height_def max_def zero_le_mult_iff mult_le_0_iff
        spec_line_count_def)

lemma measure_text_lines:
  "measure_text t w wm h hm =
     (respect_mode wm
        (fold max (map (\<lambda>l. snd (snd l))
           (spec_generated_lines (GenerateLine t) (spec_wrap_width wm w) 0 0)) 0) w,
      respect_mode hm
        (real_of_int
           (if int (length (spec_generated_lines (GenerateLine t) (spec_wrap_width wm w) 0 0)) = 0
            then 1
            else int (length (spec_generated_lines (GenerateLine t) (spec_wrap_width wm w) 0 0)))
         * max 0 (ascent (metrics_of t) + \<bar>descent (metrics_of t)\<bar>)) h)"
  by (cases wm)
     (simp_all add: measure_text_def Let_def spec_wrap_width_def measure_loop_lines)

lemma measure_text_spec:
  "measure_text t w wm h hm = spec_text_measure t w wm h hm"
  unfolding measure_text_lines spec_text_measure_def spec_natural_size_def Let_def
  by (simp only: natural_width_floor natural_height_floor respect_mode_floor fst_conv snd_conv)

lemma sample_lines:
  "spec_generated_lines (sample_GenerateLine ''hello world'') (Width 50) 0 0 =
     [(''hello'', 5, 50), ('' worl'', 5, 50), (''d'', 1, 10)]"
  by (simp add: spec_generated_lines.simps sample_GenerateLine_def max_iterations_def)

text \<open>
  C3. What \<^verbatim>\<open>YogaMeasureFunc\<close> returns for a text leaf is the size the specification
  describes (\<open>spec_text_measure\<close>): the natural size is the maximum width over the
  generated lines and the line count, at least 1, times the tight line height
  ascent + |descent|; per dimension, exact mode takes the constraint, at-most mode the
  minimum of the natural value and the constraint, unconstrained mode the natural value;
  and both dimensions are floored at 0. The code floors the tight line height and the
  constraints at 0 before it combines them, and starts the maximum width at 0; the size
  is the same.
\<close>

theorem text_leaf_measure:
  assumes "YGNodeGetContext node = Some element" and "as_text element = Some t"
  shows "YogaMeasureFunc node w wm h hm = spec_text_measure t w wm h hm
     \<and> 0 \<le> fst (YogaMeasureFunc node w wm h hm) \<and> 0 \<le> snd (YogaMeasureFunc node w wm h hm)"
  using assms
  by (simp add: YogaMeasureFunc_def measure_text_spec spec_text_measure_def Let_def)

text \<open>
  The text \<open>hello world\<close> at most 50 wide breaks into three lines, the widest 50 wide;
  with ascent 10 and descent -3 it measures 50 by 39.
\<close>

theorem text_leaf_measure_witness:
  "YogaMeasureFunc (node_of (sample_text_element ''hello world'')) 50 YGMeasureModeAtMost 0
     YGMeasureModeUndefined = (50, 39)"
  using text_leaf_measure [of "node_of (sample_text_element ''hello world'')"
      "sample_text_element ''hello world''" "sample_text ''hello world''"
      50 YGMeasureModeAtMost 0 YGMeasureModeUndefined]
  by (simp add: node_of_def sample_text_element_def YGNodeSetContext_def YGNodeNewWithConfig_def
      spec_text_measure_def spec_natural_size_def spec_wrap_width_def sample_text_def sample_lines
      spec_max_line_width_def spec_line_count_def spec_tight_line_height_def metrics_of_def
      spec_clamp_def)

section \<open>Text line regeneration\<close>

text \<open>
  One round of each loop, by what the line-break request returns.
\<close>

lemma text_lines_loop_cap:
  "\<not> it < max_iterations \<Longrightarrow> text_lines_loop te mw b lh it lb li = (te, it)"
  by (subst text_lines_loop.simps) simp

lemma text_lines_loop_zero:
  "it < max_iterations \<Longrightarrow> GenerateLine te lb (Width mw) = (line, len, lw, e) \<Longrightarrow> len \<le> 0 \<Longrightarrow>
   text_lines_loop te mw b lh it lb li =
     ((if li = 0 then AddLine te (0, b) [] else te), it + 1)"
  by (subst text_lines_loop.simps) simp

lemma text_lines_loop_end:
  "it < max_iterations \<Longrightarrow> GenerateLine te lb (Width mw) = (line, len, lw, e) \<Longrightarrow> \<not> len \<le> 0 \<Longrightarrow> e \<Longrightarrow>
   text_lines_loop te mw b lh it lb li =
     (AddLine te (0, b + real_of_int li * lh) line, it + 1)"
  by (subst text_lines_loop.simps) (simp add: Let_def)

lemma text_lines_loop_step:
  "it < max_iterations \<Longrightarrow> GenerateLine te lb (Width mw) = (line, len, lw, e) \<Longrightarrow> \<not> len \<le> 0 \<Longrightarrow> \<not> e \<Longrightarrow>
   text_lines_loop te mw b lh it lb li =
     text_lines_loop (AddLine te (0, b + real_of_int li * lh) line) mw b lh (it + 1) (lb + len) (li + 1)"
  by (subst text_lines_loop.simps) (simp add: Let_def)

lemma spec_generated_lines_cap:
  "\<not> it < max_iterations \<Longrightarrow> spec_generated_lines g w it lb = []"
  by (subst spec_generated_lines.simps) simp

lemma spec_generated_lines_zero:
  "it < max_iterations \<Longrightarrow> g lb w = (line, len, lw, e) \<Longrightarrow> len \<le> 0 \<Longrightarrow>
   spec_generated_lines g w it lb = []"
  by (subst spec_generated_lines.simps) simp

lemma spec_generated_lines_end:
  "it < max_iterations \<Longrightarrow> g lb w = (line, len, lw, e) \<Longrightarrow> \<not> len \<le> 0 \<Longrightarrow> e \<Longrightarrow>
   spec_generated_lines g w it lb = [(line, len, lw)]"
  by (subst spec_generated_lines.simps) simp

lemma spec_generated_lines_step:
  "it < max_iterations \<Longrightarrow> g lb w = (line, len, lw, e) \<Longrightarrow> \<not> len \<le> 0 \<Longrightarrow> \<not> e \<Longrightarrow>
   spec_generated_lines g w it lb = (line, len, lw) # spec_generated_lines g w (it + 1) (lb + len)"
  by (subst spec_generated_lines.simps) simp

lemma text_lines_loop_result:
  "0 \<le> li \<Longrightarrow>
   fst (text_lines_loop te mw b lh it lb li) =
     te\<lparr>text_lines := text_lines te @
        (if spec_generated_lines (GenerateLine te) (Width mw) it lb = []
         then (if it < max_iterations \<and> li = 0 then [((0, b), [])] else [])
         else placed_lines b lh li (spec_generated_lines (GenerateLine te) (Width mw) it lb))\<rparr>
   \<and> it \<le> snd (text_lines_loop te mw b lh it lb li)
   \<and> snd (text_lines_loop te mw b lh it lb li)
        \<le> it + int (length (spec_generated_lines (GenerateLine te) (Width mw) it lb)) + 1
   \<and> it + int (length (spec_generated_lines (GenerateLine te) (Width mw) it lb))
        \<le> snd (text_lines_loop te mw b lh it lb li)
   \<and> (it \<le> max_iterations \<longrightarrow> snd (text_lines_loop te mw b lh it lb li) \<le> max_iterations)
   \<and> (it < max_iterations \<longrightarrow> it < snd (text_lines_loop te mw b lh it lb li))"
proof (induction te mw b lh it lb li rule: text_lines_loop.induct)
  case (1 te mw b lh it lb li)
  show ?case
  proof (cases "it < max_iterations")
    case False
    then show ?thesis
      by (simp add: text_lines_loop_cap spec_generated_lines_cap)
  next
    case running: True
    obtain line len lw e where g: "GenerateLine te lb (Width mw) = (line, len, lw, e)"
      by (metis prod_cases4)
    show ?thesis
    proof (cases "len \<le> 0")
      case True
      with running g show ?thesis
        by (simp add: text_lines_loop_zero [OF running g] spec_generated_lines_zero [where g = "GenerateLine te" and w = "Width mw", OF running g]
            AddLine_def)
    next
      case consumed: False
      show ?thesis
      proof (cases e)
        case True
        with running g consumed show ?thesis
          by (simp add: text_lines_loop_end [OF running g] spec_generated_lines_end [where g = "GenerateLine te" and w = "Width mw", OF running g]
              AddLine_def)
      next
        case False
        from "1.prems" have "0 \<le> li + 1" by simp
        note IH = "1.IH" [OF running g [symmetric] refl refl consumed refl refl False this]
        have gen: "GenerateLine (AddLine te (0, b + real_of_int li * lh) line) = GenerateLine te"
          by (simp add: AddLine_def)
        from IH running "1.prems" show ?thesis
          unfolding text_lines_loop_step [OF running g consumed False]
            spec_generated_lines_step [where g = "GenerateLine te" and w = "Width mw", OF running g consumed False] gen
          by (auto simp add: AddLine_def)
      qed
    qed
  qed
qed


lemma placed_lines_length: "length (placed_lines b lh li ls) = length ls"
  by (induction ls arbitrary: li) simp_all

lemma placed_lines_texts: "map snd (placed_lines b lh li ls) = map fst ls"
  by (induction ls arbitrary: li) simp_all

lemma placed_lines_nth:
  "i < length ls \<Longrightarrow>
   fst (placed_lines b lh li ls ! i) = (0, b + real_of_int (li + int i) * lh)"
proof (induction ls arbitrary: li i)
  case Nil
  then show ?case by simp
next
  case (Cons l ls)
  show ?case
  proof (cases i)
    case 0
    then show ?thesis by simp
  next
    case (Suc j)
    with Cons.prems have "j < length ls" by simp
    from Cons.IH [OF this, of "li + 1"] Suc show ?thesis
      by (simp add: algebra_simps)
  qed
qed

lemma text_baseline_offset_lines:
  "text_baseline_offset (t\<lparr>text_lines := ls\<rparr>) = text_baseline_offset t"
  by (simp add: text_baseline_offset_def metrics_of_def)

lemma GenerateTextLines_lines:
  "text_lines (GenerateTextLines t aw) =
     (if spec_generated_lines (GenerateLine t) (Width (max 0 aw)) 0 0 = []
      then [((0, text_baseline_offset t), [])]
      else placed_lines (text_baseline_offset t) (max 0 (GetLineHeight t)) 0
             (spec_generated_lines (GenerateLine t) (Width (max 0 aw)) 0 0))"
  using text_lines_loop_result [of 0 "t\<lparr>text_lines := []\<rparr>" "max 0 aw" "text_baseline_offset t"
      "max 0 (GetLineHeight t)" 0 0]
  by (simp add: GenerateTextLines_def GenerateTextLines_run_def Let_def
      text_baseline_offset_lines ClearLines_def max_iterations_def)

lemma GenerateTextLines_iterations:
  "1 \<le> snd (GenerateTextLines_run t aw)
   \<and> snd (GenerateTextLines_run t aw) \<le> max_iterations
   \<and> snd (GenerateTextLines_run t aw)
        \<le> int (length (spec_generated_lines (GenerateLine t) (Width (max 0 aw)) 0 0)) + 1
   \<and> int (length (spec_generated_lines (GenerateLine t) (Width (max 0 aw)) 0 0))
        \<le> snd (GenerateTextLines_run t aw)"
  using text_lines_loop_result [of 0 "t\<lparr>text_lines := []\<rparr>" "max 0 aw" "text_baseline_offset t"
      "max 0 (GetLineHeight t)" 0 0]
  by (simp add: GenerateTextLines_run_def Let_def
      text_baseline_offset_lines ClearLines_def max_iterations_def)

lemma sample_baseline: "text_baseline_offset (sample_text s) = 11"
  by (simp add: text_baseline_offset_def sample_text_def metrics_of_def)

text \<open>
  C5, as the claim states it, fails. With ascent 10, descent -3 and line height 16 the
  baseline callback returns 11.5, and the lines are placed at the baseline offset 11.
  With line height 0 the callback returns the ascent 10, where ascent plus half of
  (line height - font height) is 3.5.
\<close>

theorem line_baseline_differs_from_callback:
  "YogaBaselineFunc (node_of (sample_text_element ''hello'')) 0 0 = 23 / 2
   \<and> text_lines (GenerateTextLines (sample_text ''hello'') 100) = [((0, 11), ''hello'')]
   \<and> YogaBaselineFunc (node_of (Element sample_computed (Some (tight_text ''hello'')) None [] sample_geometry)) 0 0 = 10
   \<and> ascent (metrics_of (tight_text ''hello''))
       + (max 0 (GetLineHeight (tight_text ''hello''))
          - max 0 (ascent (metrics_of (tight_text ''hello'')) + \<bar>descent (metrics_of (tight_text ''hello''))\<bar>)) / 2 = 7 / 2"
  apply (intro conjI)
     apply (simp add: node_of_def sample_text_element_def YGNodeSetContext_def YGNodeNewWithConfig_def
      YogaBaselineFunc_def sample_text_def metrics_of_def Let_def)
    apply (simp add: GenerateTextLines_lines sample_baseline)
    apply (simp add: sample_text_def spec_generated_lines.simps sample_GenerateLine_def max_iterations_def)
   apply (simp add: node_of_def tight_text_def YGNodeSetContext_def YGNodeNewWithConfig_def
      YogaBaselineFunc_def sample_text_def metrics_of_def Let_def)
  apply (simp add: tight_text_def sample_text_def metrics_of_def)
  done

text \<open>
  C5, amended. For a text element, the baseline the callback returns is the ascent plus
  half of the leading, where the leading is line height - font height floored at 0,
  font height = ascent + |descent|, and line height and font height are each floored at
  0. The baseline offset of text line regeneration is that baseline rounded down to a
  whole number, and line \<open>i\<close> of the regenerated lines stands at the baseline offset plus
  \<open>i\<close> line heights.
\<close>

theorem line_baseline_is_floored_baseline:
  assumes "YGNodeGetContext node = Some element" and "as_text element = Some t"
  shows "YogaBaselineFunc node w h =
           ascent (metrics_of t)
           + max 0 (max 0 (GetLineHeight t) - max 0 (ascent (metrics_of t) + \<bar>descent (metrics_of t)\<bar>)) / 2
     \<and> text_baseline_offset t = real_of_int \<lfloor>YogaBaselineFunc node w h\<rfloor>
     \<and> (\<forall>i < length (text_lines (GenerateTextLines t aw)).
          fst (text_lines (GenerateTextLines t aw) ! i) =
            (0, text_baseline_offset t + real i * max 0 (GetLineHeight t)))"
proof -
  have baseline: "YogaBaselineFunc node w h =
           ascent (metrics_of t)
           + max 0 (max 0 (GetLineHeight t) - max 0 (ascent (metrics_of t) + \<bar>descent (metrics_of t)\<bar>)) / 2"
    using assms by (simp add: YogaBaselineFunc_def Let_def)
  have floored: "text_baseline_offset t = real_of_int \<lfloor>YogaBaselineFunc node w h\<rfloor>"
    using assms by (simp add: YogaBaselineFunc_def text_baseline_offset_def Let_def)
  have placed: "\<forall>i < length (text_lines (GenerateTextLines t aw)).
          fst (text_lines (GenerateTextLines t aw) ! i) =
            (0, text_baseline_offset t + real i * max 0 (GetLineHeight t))"
    by (simp add: GenerateTextLines_lines placed_lines_length placed_lines_nth)
  from baseline floored placed show ?thesis by simp
qed

theorem line_baseline_is_floored_baseline_witness:
  "YogaBaselineFunc (node_of (sample_text_element ''hello world'')) 0 0 = 23 / 2
   \<and> text_baseline_offset (sample_text ''hello world'') = 11
   \<and> map fst (text_lines (GenerateTextLines (sample_text ''hello world'') 50)) = [(0, 11), (0, 27), (0, 43)]"
  using line_baseline_is_floored_baseline [of "node_of (sample_text_element ''hello world'')" "sample_text_element ''hello world''"
      "sample_text ''hello world''" 0 0 50]
  by (simp add: node_of_def sample_text_element_def YGNodeSetContext_def YGNodeNewWithConfig_def
      GenerateTextLines_lines sample_baseline)
     (simp add: sample_text_def sample_lines metrics_of_def)

text \<open>
  C6. \<^verbatim>\<open>GenerateTextLines\<close> makes at least one and at most 4096 line-break requests,
  and at most one more than it generates lines, so a request that consumes nothing is the
  last; it leaves at least one line, and no more lines than requests. When lines were
  generated, their texts are the lines of the element. When the first request consumes
  nothing, as for an empty text, the element has exactly one line, empty and at the
  baseline offset, after one request.
\<close>

theorem GenerateTextLines_terminates:
  "1 \<le> snd (GenerateTextLines_run t aw) \<and> snd (GenerateTextLines_run t aw) \<le> 4096
   \<and> snd (GenerateTextLines_run t aw)
        \<le> int (length (spec_generated_lines (GenerateLine t) (Width (max 0 aw)) 0 0)) + 1
   \<and> 1 \<le> length (text_lines (GenerateTextLines t aw))
   \<and> int (length (text_lines (GenerateTextLines t aw))) \<le> snd (GenerateTextLines_run t aw)
   \<and> (spec_generated_lines (GenerateLine t) (Width (max 0 aw)) 0 0 \<noteq> [] \<longrightarrow>
        map snd (text_lines (GenerateTextLines t aw)) =
          map fst (spec_generated_lines (GenerateLine t) (Width (max 0 aw)) 0 0))
   \<and> (fst (snd (GenerateLine t 0 (Width (max 0 aw)))) \<le> 0 \<longrightarrow>
        text_lines (GenerateTextLines t aw) = [((0, text_baseline_offset t), [])]
        \<and> snd (GenerateTextLines_run t aw) = 1)"
proof -
  let ?ls = "spec_generated_lines (GenerateLine t) (Width (max 0 aw)) 0 0"
  note n = GenerateTextLines_iterations [of t aw]
  have len: "length (text_lines (GenerateTextLines t aw)) = (if ?ls = [] then 1 else length ?ls)"
    by (simp add: GenerateTextLines_lines placed_lines_length)
  have texts: "?ls \<noteq> [] \<longrightarrow> map snd (text_lines (GenerateTextLines t aw)) = map fst ?ls"
    by (simp add: GenerateTextLines_lines placed_lines_texts)
  have zero: "fst (snd (GenerateLine t 0 (Width (max 0 aw)))) \<le> 0 \<longrightarrow> ?ls = []"
    by (subst spec_generated_lines.simps) (simp add: max_iterations_def split: prod.splits)
  have one: "?ls = [] \<longrightarrow> snd (GenerateTextLines_run t aw) = 1"
    using n by auto
  have empty: "?ls = [] \<longrightarrow> text_lines (GenerateTextLines t aw) = [((0, text_baseline_offset t), [])]"
    by (simp add: GenerateTextLines_lines)
  have some: "1 \<le> length (text_lines (GenerateTextLines t aw))"
    by (cases ?ls) (simp_all add: len)
  have few: "int (length (text_lines (GenerateTextLines t aw))) \<le> snd (GenerateTextLines_run t aw)"
    using n by (cases ?ls) (simp_all add: len)
  from n have cap: "1 \<le> snd (GenerateTextLines_run t aw) \<and> snd (GenerateTextLines_run t aw) \<le> 4096
      \<and> snd (GenerateTextLines_run t aw) \<le> int (length ?ls) + 1"
    by (simp add: max_iterations_def)
  from zero one empty
  have stop: "fst (snd (GenerateLine t 0 (Width (max 0 aw)))) \<le> 0 \<longrightarrow>
        text_lines (GenerateTextLines t aw) = [((0, text_baseline_offset t), [])]
        \<and> snd (GenerateTextLines_run t aw) = 1"
    by blast
  from cap some few texts stop show ?thesis
    by blast
qed

text \<open>
  The empty text, and a text at a width that fits no character: one empty line at the
  baseline offset 11, after one request.
\<close>

theorem GenerateTextLines_terminates_witness:
  "text_lines (GenerateTextLines (sample_text []) 100) = [((0, 11), [])]
   \<and> snd (GenerateTextLines_run (sample_text []) 100) = 1
   \<and> text_lines (GenerateTextLines (sample_text ''hello world'') 5) = [((0, 11), [])]
   \<and> snd (GenerateTextLines_run (sample_text ''hello world'') 5) = 1"
  using GenerateTextLines_terminates [of "sample_text []" 100]
        GenerateTextLines_terminates [of "sample_text ''hello world''" 5]
  by (simp add: sample_baseline) (simp add: sample_text_def sample_GenerateLine_def)

section \<open>Tree Builder: leaves and children\<close>

lemma YGNodeInsertChild_last:
  "node_children (YGNodeInsertChild node child (YGNodeGetChildCount node)) =
     node_children node @ [child]"
  by (simp add: YGNodeInsertChild_def YGNodeGetChildCount_def)

lemma YGNodeInsertChild_flags:
  "has_measure_func (YGNodeInsertChild node child i) = has_measure_func node"
  "has_baseline_func (YGNodeInsertChild node child i) = has_baseline_func node"
  by (simp_all add: YGNodeInsertChild_def)

lemma build_children_children:
  "node_children (build_children cs config node) =
     node_children node @ map (\<lambda>c. BuildYogaTreeRecursive c config) (List.map_filter id cs)"
proof (induction cs arbitrary: node)
  case Nil
  then show ?case by (simp add: List.map_filter_simps)
next
  case (Cons c cs)
  then show ?case
    by (cases c) (simp_all add: List.map_filter_simps YGNodeInsertChild_last)
qed

lemma build_children_flags:
  "has_measure_func (build_children cs config node) = has_measure_func node
   \<and> has_baseline_func (build_children cs config node) = has_baseline_func node"
proof (induction cs arbitrary: node)
  case Nil
  then show ?case by simp
next
  case (Cons c cs)
  then show ?case by (cases c) (simp_all add: YGNodeInsertChild_flags)
qed

text \<open>
  C7, as the claim states it, fails: a text element that reports one child gets that
  child expanded into the layout tree.
\<close>

theorem text_with_child_is_expanded:
  "as_text text_with_child \<noteq> None \<and> GetNumChildren text_with_child = 1
   \<and> length (node_children (BuildYogaTreeRecursive text_with_child sample_config)) = 1"
  by (simp add: text_with_child_def sample_element_def GetNumChildren_def Let_def
        YGNodeStyleSetDirection_def set_node_style_def YGNodeSetMeasureFunc_def
        YGNodeSetBaselineFunc_def YGNodeSetContext_def YGNodeNewWithConfig_def
        YGNodeInsertChild_def YGNodeGetChildCount_def)

text \<open>
  C7, amended. An element with no children that is a text element or reports intrinsic
  dimensions becomes a node without children that has the measure callback, and the
  baseline callback exactly when it is a text element. An element that reports children
  has every non-null child expanded into the layout tree, in order, and gets no measure
  callback, whether or not it is a text element or reports intrinsic dimensions.
\<close>

theorem leaf_decision:
  "(children element = []
      \<and> (as_text element \<noteq> None \<or> GetIntrinsicDimensions element \<noteq> None) \<longrightarrow>
        node_children (BuildYogaTreeRecursive element config) = []
        \<and> has_measure_func (BuildYogaTreeRecursive element config)
        \<and> has_baseline_func (BuildYogaTreeRecursive element config) = (as_text element \<noteq> None))
   \<and> (children element \<noteq> [] \<longrightarrow>
        node_children (BuildYogaTreeRecursive element config) =
          map (\<lambda>c. BuildYogaTreeRecursive c config) (List.map_filter id (children element))
        \<and> \<not> has_measure_func (BuildYogaTreeRecursive element config))"
  by (cases element)
     (simp add: Let_def GetNumChildren_def YGNodeStyleSetDirection_def set_node_style_def
        YGNodeSetMeasureFunc_def YGNodeSetBaselineFunc_def YGNodeSetContext_def
        YGNodeNewWithConfig_def build_children_children build_children_flags)

theorem leaf_decision_witness:
  "node_children (BuildYogaTreeRecursive (sample_text_element ''ab'') sample_config) = []
   \<and> has_measure_func (BuildYogaTreeRecursive (sample_text_element ''ab'') sample_config)
   \<and> has_baseline_func (BuildYogaTreeRecursive (sample_text_element ''ab'') sample_config)
   \<and> node_children (BuildYogaTreeRecursive text_with_child sample_config) =
       [BuildYogaTreeRecursive sample_element sample_config]
   \<and> \<not> has_measure_func (BuildYogaTreeRecursive text_with_child sample_config)"
  using leaf_decision [of "sample_text_element ''ab''" sample_config]
        leaf_decision [of text_with_child sample_config]
  by (simp add: sample_text_element_def text_with_child_def List.map_filter_simps)

section \<open>Layout Applier: scrollable overflow\<close>

lemma solved_box_edges:
  "GetEdge (solved_box l) Padding Left = layout_padding l YGEdgeLeft"
  "GetEdge (solved_box l) Padding Right = layout_padding l YGEdgeRight"
  "GetEdge (solved_box l) Padding Top = layout_padding l YGEdgeTop"
  "GetEdge (solved_box l) Padding Bottom = layout_padding l YGEdgeBottom"
  by (simp_all add: solved_box_def Let_def SetEdge_def SetContent_def GetEdge_def Box_new_def)

text \<open>
  C8. For every call of \<^verbatim>\<open>ApplyLayoutRecursive\<close>, the scrollable overflow size written to
  the element is, on each axis, at least the content size plus the two padding edges of
  that axis.
\<close>

theorem scrollable_overflow_lower_bound:
  "fst (content (box_of (geometry (ApplyLayoutRecursive element node pos))))
     + GetEdge (box_of (geometry (ApplyLayoutRecursive element node pos))) Padding Left
     + GetEdge (box_of (geometry (ApplyLayoutRecursive element node pos))) Padding Right
     \<le> fst (scrollable_overflow (geometry (ApplyLayoutRecursive element node pos)))
   \<and> snd (content (box_of (geometry (ApplyLayoutRecursive element node pos))))
     + GetEdge (box_of (geometry (ApplyLayoutRecursive element node pos))) Padding Top
     + GetEdge (box_of (geometry (ApplyLayoutRecursive element node pos))) Padding Bottom
     \<le> snd (scrollable_overflow (geometry (ApplyLayoutRecursive element node pos)))"
  by (cases element) (simp add: Let_def solved_box_edges scrollable_overflow_size_def vadd_def)

text \<open>
  An element of content size (90, 30) and padding 4 whose child is 200 wide: the
  scrollable overflow size is (204, 46).
\<close>

theorem scrollable_overflow_lower_bound_witness:
  "content (box_of (geometry (ApplyLayoutRecursive
       (Element sample_computed None None [Some sample_element] sample_geometry)
       (YGLayoutNode sample_layout [YGLayoutNode (sample_layout\<lparr>layout_w := 200\<rparr>) []])
       (0, 0)))) = (90, 30)
   \<and> scrollable_overflow (geometry (ApplyLayoutRecursive
       (Element sample_computed None None [Some sample_element] sample_geometry)
       (YGLayoutNode sample_layout [YGLayoutNode (sample_layout\<lparr>layout_w := 200\<rparr>) []])
       (0, 0))) = (204, 46)"
  using scrollable_overflow_lower_bound
      [of "Element sample_computed None None [Some sample_element] sample_geometry"
          "YGLayoutNode sample_layout [YGLayoutNode (sample_layout\<lparr>layout_w := 200\<rparr>) []]"
          "(0, 0)"]
  by (simp add: sample_element_def sample_layout_def Let_def solved_box_def
      scrollable_overflow_size_def vadd_def vsub_def SetEdge_def SetContent_def Box_new_def
      expand_overflow_def GetRelativeOffset_def GetEdge_def edges_size_def)

section \<open>Box Model Builder: auto margins\<close>

lemma BuildBox_margins:
  "BuildBox (cbw, cbh) (Some e) m = box \<Longrightarrow> c = GetComputedValues e \<Longrightarrow>
   bpx = ResolveValue (cv_padding_left c) cbw + ResolveValue (cv_padding_right c) cbw
         + real (cv_border_left_width c) + real (cv_border_right_width c) \<Longrightarrow>
   (GetEdge box Margin Left, GetEdge box Margin Right) =
     horizontal_margins (cv_margin_left c) (cv_margin_right c) cbw (fst (content box)) bpx m
   \<and> GetEdge box Padding Left = ResolveValue (cv_padding_left c) cbw
   \<and> GetEdge box Padding Right = ResolveValue (cv_padding_right c) cbw
   \<and> GetEdge box Border Left = real (cv_border_left_width c)
   \<and> GetEdge box Border Right = real (cv_border_right_width c)"
  by (auto simp add: BuildBox_def Let_def SetEdge_def SetContent_def GetEdge_def Box_new_def
        ResolveAgainstWidth_def)

lemma centered_box:
  "BuildBox (300, 0) (Some centered_element) Block = b \<Longrightarrow>
   content b = (100, - 1) \<and> GetEdge b Padding Left = 0 \<and> GetEdge b Padding Right = 0
   \<and> GetEdge b Border Left = 0 \<and> GetEdge b Border Right = 0"
  by (auto simp add: BuildBox_def Let_def SetEdge_def SetContent_def GetEdge_def Box_new_def
        ResolveAgainstWidth_def content_dimension_def ResolveValue_def ResolveValueOr_def
        ClampMaxValue_def large_def centered_element_def sample_computed_def)

text \<open>
  C9, as the claim states it, fails when the containing width is negative: with a
  containing width of -1, a content width of 0, a left margin of -100 and an auto right
  margin, the remaining space is 99, and the right margin is 0.
\<close>

theorem auto_margin_negative_containing_width:
  "fst (content (BuildBox (- 1, 0) (Some pulled_element) Block)) = 0
   \<and> cv_margin_right (GetComputedValues pulled_element) = LPA_Auto
   \<and> cv_margin_left (GetComputedValues pulled_element) = LPA_Length (- 100)
   \<and> GetEdge (BuildBox (- 1, 0) (Some pulled_element) Block) Padding Left = 0
   \<and> GetEdge (BuildBox (- 1, 0) (Some pulled_element) Block) Padding Right = 0
   \<and> GetEdge (BuildBox (- 1, 0) (Some pulled_element) Block) Border Left = 0
   \<and> GetEdge (BuildBox (- 1, 0) (Some pulled_element) Block) Border Right = 0
   \<and> (- 1) - 0 - (0 + 0) - (0 + 0) - (- 100) = (99 :: real)
   \<and> GetEdge (BuildBox (- 1, 0) (Some pulled_element) Block) Margin Right = 0"
  by (simp add: BuildBox_def Let_def SetEdge_def SetContent_def GetEdge_def Box_new_def
      ResolveAgainstWidth_def content_dimension_def ResolveValue_def ResolveValueOr_def
      ClampMaxValue_def large_def pulled_element_def sample_computed_def
      horizontal_margins_def ResolveAgainstWidth_auto_def)

text \<open>
  With a negative containing width, block mode leaves an auto margin at 0 and a margin
  that is not auto at its resolved value.
\<close>

lemma horizontal_margins_negative_width:
  "cbw < 0 \<Longrightarrow> horizontal_margins ml mr cbw cw bpx Block =
     ((if ml = LPA_Auto then 0 else ResolveValueOr ml cbw 0), (if mr = LPA_Auto then 0 else ResolveValueOr mr cbw 0))"
  by (simp add: horizontal_margins_def Let_def ResolveAgainstWidth_auto_def)

text \<open>
  C9, amended. In \<^verbatim>\<open>BuildBox\<close> with block mode, with remaining = containing width -
  content width - padding - border - non-auto margins: for an element whose content
  width is definite and a containing width that is not negative, a positive remaining
  space is split evenly between two auto margins, or given to the single auto margin, and
  otherwise the auto margins are 0; with a negative containing width the auto margins
  are 0, for every element.
\<close>

theorem block_auto_margins:
  assumes box: "box = BuildBox (cbw, cbh) (Some e) Block"
    and c: "c = GetComputedValues e"
    and remaining: "remaining = cbw - fst (content box)
        - (GetEdge box Padding Left + GetEdge box Padding Right)
        - (GetEdge box Border Left + GetEdge box Border Right)
        - (if cv_margin_left c = LPA_Auto then 0 else ResolveValueOr (cv_margin_left c) cbw 0)
        - (if cv_margin_right c = LPA_Auto then 0 else ResolveValueOr (cv_margin_right c) cbw 0)"
  shows "(fst (content box) \<ge> 0 \<and> cbw \<ge> 0 \<longrightarrow>
          (remaining > 0 \<and> cv_margin_left c = LPA_Auto \<and> cv_margin_right c = LPA_Auto \<longrightarrow>
            GetEdge box Margin Left = remaining / 2 \<and> GetEdge box Margin Right = remaining / 2)
          \<and> (remaining > 0 \<and> cv_margin_left c = LPA_Auto \<and> cv_margin_right c \<noteq> LPA_Auto \<longrightarrow>
            GetEdge box Margin Left = remaining)
          \<and> (remaining > 0 \<and> cv_margin_left c \<noteq> LPA_Auto \<and> cv_margin_right c = LPA_Auto \<longrightarrow>
            GetEdge box Margin Right = remaining)
          \<and> (remaining \<le> 0 \<and> cv_margin_left c = LPA_Auto \<longrightarrow> GetEdge box Margin Left = 0)
          \<and> (remaining \<le> 0 \<and> cv_margin_right c = LPA_Auto \<longrightarrow> GetEdge box Margin Right = 0))
       \<and> (cbw < 0 \<longrightarrow>
          (cv_margin_left c = LPA_Auto \<longrightarrow> GetEdge box Margin Left = 0)
          \<and> (cv_margin_right c = LPA_Auto \<longrightarrow> GetEdge box Margin Right = 0))"
proof -
  define bpx where
    "bpx = ResolveValue (cv_padding_left c) cbw + ResolveValue (cv_padding_right c) cbw
         + real (cv_border_left_width c) + real (cv_border_right_width c)"
  note m = BuildBox_margins [OF box [symmetric] c bpx_def]
  have ml: "GetEdge box Margin Left =
      fst (horizontal_margins (cv_margin_left c) (cv_margin_right c) cbw (fst (content box)) bpx Block)"
    and mr: "GetEdge box Margin Right =
      snd (horizontal_margins (cv_margin_left c) (cv_margin_right c) cbw (fst (content box)) bpx Block)"
    using m by (metis fst_conv, metis snd_conv)
  have rem: "remaining = cbw - fst (content box) - bpx
        - (if cv_margin_left c = LPA_Auto then 0 else ResolveValueOr (cv_margin_left c) cbw 0)
        - (if cv_margin_right c = LPA_Auto then 0 else ResolveValueOr (cv_margin_right c) cbw 0)"
    using m remaining by (simp add: bpx_def)
  have known: "fst (content box) \<ge> 0 \<and> cbw \<ge> 0 \<longrightarrow>
          (remaining > 0 \<and> cv_margin_left c = LPA_Auto \<and> cv_margin_right c = LPA_Auto \<longrightarrow>
            GetEdge box Margin Left = remaining / 2 \<and> GetEdge box Margin Right = remaining / 2)
          \<and> (remaining > 0 \<and> cv_margin_left c = LPA_Auto \<and> cv_margin_right c \<noteq> LPA_Auto \<longrightarrow>
            GetEdge box Margin Left = remaining)
          \<and> (remaining > 0 \<and> cv_margin_left c \<noteq> LPA_Auto \<and> cv_margin_right c = LPA_Auto \<longrightarrow>
            GetEdge box Margin Right = remaining)
          \<and> (remaining \<le> 0 \<and> cv_margin_left c = LPA_Auto \<longrightarrow> GetEdge box Margin Left = 0)
          \<and> (remaining \<le> 0 \<and> cv_margin_right c = LPA_Auto \<longrightarrow> GetEdge box Margin Right = 0)"
    by (simp add: ml mr rem horizontal_margins_def Let_def ResolveAgainstWidth_auto_def)
  have unknown: "cbw < 0 \<longrightarrow>
          (cv_margin_left c = LPA_Auto \<longrightarrow> GetEdge box Margin Left = 0)
          \<and> (cv_margin_right c = LPA_Auto \<longrightarrow> GetEdge box Margin Right = 0)"
    by (simp add: ml mr horizontal_margins_negative_width)
  from known unknown show ?thesis by blast
qed

text \<open>
  Containing width 300, content width 100, both margins auto, no padding or border: both
  margins are 100. The same element in a containing width of -1: both margins are 0.
\<close>

theorem block_auto_margins_witness:
  "GetEdge (BuildBox (300, 0) (Some centered_element) Block) Margin Left = 100
   \<and> GetEdge (BuildBox (300, 0) (Some centered_element) Block) Margin Right = 100
   \<and> GetEdge (BuildBox (- 1, 0) (Some centered_element) Block) Margin Left = 0
   \<and> GetEdge (BuildBox (- 1, 0) (Some centered_element) Block) Margin Right = 0"
  using block_auto_margins [of "BuildBox (300, 0) (Some centered_element) Block" 300 0
      centered_element "GetComputedValues centered_element" 200] centered_box [OF refl]
    block_auto_margins [of "BuildBox (- 1, 0) (Some centered_element) Block" "- 1" 0
      centered_element "GetComputedValues centered_element", OF refl refl refl]
  by (simp add: centered_element_def sample_computed_def)

section \<open>Font faces: memoized handles\<close>

lemma GetHandle_hit:
  "handles ff (MakeHandleKey sz (Math_Max d 0)) = Some p \<Longrightarrow>
   GetHandle init ff heap sz l d = (p, ff, heap)"
  by (simp add: GetHandle_def Let_def)

lemma GetHandle_stores:
  "GetHandle init ff heap sz l d = (p, ff', heap') \<Longrightarrow>
   handles ff' (MakeHandleKey sz (Math_Max d 0)) = Some p
   \<or> (p = None \<and> ff' = ff \<and> heap' = heap \<and> face ff = 0
       \<and> handles ff (MakeHandleKey sz (Math_Max d 0)) = None)"
  by (auto simp add: GetHandle_def Let_def split: option.splits if_splits)

lemma Math_Max_zero: "Math_Max d 0 = (if sint d < 0 then 0 else d)"
  by (simp add: Math_Max_def)

text \<open>
  C10. Two calls of \<^verbatim>\<open>GetHandle\<close> with the same size and weight delta, the second on the
  state the first left: the second returns the pointer of the first and changes neither
  the handle map nor the heap, whatever the initialisation would do and whatever the
  glyph flags are. A call with a negative delta is the call with delta 0. When the first
  call finds no entry under the key of the size and the clamped delta, the face is not
  released and the initialisation fails, it stores a null entry under that key and
  returns null, and so does the second call.
\<close>

theorem GetHandle_memoizes:
  assumes first: "GetHandle init1 ff heap sz load1 delta = (p1, ff1, heap1)"
    and second: "GetHandle init2 ff1 heap1 sz load2 delta = (p2, ff2, heap2)"
  shows "p2 = p1 \<and> ff2 = ff1 \<and> heap2 = heap1
     \<and> (sint delta < 0 \<longrightarrow>
          GetHandle init1 ff heap sz load1 delta = GetHandle init1 ff heap sz load1 0)
     \<and> (handles ff (MakeHandleKey sz (if sint delta < 0 then 0 else delta)) = None
           \<and> face ff \<noteq> 0
           \<and> init1 (face ff) sz load1 (if sint delta < 0 then 0 else delta) = None
         \<longrightarrow> p1 = None
             \<and> handles ff1 (MakeHandleKey sz (if sint delta < 0 then 0 else delta)) = Some None
             \<and> p2 = None)"
proof -
  from GetHandle_stores [OF first]
  have same: "p2 = p1 \<and> ff2 = ff1 \<and> heap2 = heap1"
  proof
    assume "handles ff1 (MakeHandleKey sz (Math_Max delta 0)) = Some p1"
    from GetHandle_hit [OF this, of init2 heap1 load2] second show ?thesis by simp
  next
    assume released: "p1 = None \<and> ff1 = ff \<and> heap1 = heap \<and> face ff = 0
      \<and> handles ff (MakeHandleKey sz (Math_Max delta 0)) = None"
    then have "GetHandle init2 ff1 heap1 sz load2 delta = (None, ff1, heap1)"
      by (simp add: GetHandle_def Let_def)
    with second released show ?thesis by simp
  qed
  have clamp: "sint delta < 0 \<longrightarrow>
      GetHandle init1 ff heap sz load1 delta = GetHandle init1 ff heap sz load1 0"
    by (simp add: GetHandle_def Math_Max_zero)
  have failed: "handles ff (MakeHandleKey sz (if sint delta < 0 then 0 else delta)) = None
           \<and> face ff \<noteq> 0
           \<and> init1 (face ff) sz load1 (if sint delta < 0 then 0 else delta) = None
         \<longrightarrow> p1 = None
             \<and> handles ff1 (MakeHandleKey sz (if sint delta < 0 then 0 else delta)) = Some None
             \<and> p2 = None"
    using first same by (auto simp add: GetHandle_def Let_def Math_Max_zero split: if_splits)
  from same clamp failed show ?thesis by simp
qed

text \<open>
  A face whose handle initialisation fails, asked for size 12 with delta -5: the first
  call returns null and stores a null entry under the key of size 12 and delta 0; it is
  the call with delta 0; and a second call, whose initialisation would succeed, returns
  what the first returned and leaves the state the first left.
\<close>

theorem GetHandle_memoizes_witness:
  "fst (GetHandle (\<lambda>f s l d. None) sample_face sample_heap 12 True (- 5)) = None
   \<and> GetHandle (\<lambda>f s l d. Some ())
        (fst (snd (GetHandle (\<lambda>f s l d. None) sample_face sample_heap 12 True (- 5))))
        (snd (snd (GetHandle (\<lambda>f s l d. None) sample_face sample_heap 12 True (- 5))))
        12 False (- 5)
      = GetHandle (\<lambda>f s l d. None) sample_face sample_heap 12 True (- 5)
   \<and> GetHandle (\<lambda>f s l d. None) sample_face sample_heap 12 True (- 5)
      = GetHandle (\<lambda>f s l d. None) sample_face sample_heap 12 True 0
   \<and> handles (fst (snd (GetHandle (\<lambda>f s l d. None) sample_face sample_heap 12 True (- 5))))
        (MakeHandleKey 12 0) = Some None"
proof -
  obtain p1 ff1 h1 where
    r1: "GetHandle (\<lambda>f s l d. None) sample_face sample_heap 12 True (- 5) = (p1, ff1, h1)"
    by (metis prod_cases3)
  obtain p2 ff2 h2 where
    r2: "GetHandle (\<lambda>f s l d. Some ()) ff1 h1 12 False (- 5) = (p2, ff2, h2)"
    by (metis prod_cases3)
  have neg: "sint (- 5 :: 32 word) < 0"
    by simp
  have pre: "handles sample_face (MakeHandleKey 12 0) = None \<and> face sample_face \<noteq> 0"
    by (simp add: sample_face_def)
  note t = GetHandle_memoizes [OF r1 r2]
  from t neg have clamped:
    "GetHandle (\<lambda>f s l d. None) sample_face sample_heap 12 True (- 5)
      = GetHandle (\<lambda>f s l d. None) sample_face sample_heap 12 True 0"
    by blast
  from t neg pre have failed: "p1 = None \<and> handles ff1 (MakeHandleKey 12 0) = Some None"
    by simp
  from t have same: "(p2, ff2, h2) = (p1, ff1, h1)"
    by simp
  have "fst (GetHandle (\<lambda>f s l d. None) sample_face sample_heap 12 True (- 5)) = None
   \<and> GetHandle (\<lambda>f s l d. Some ())
        (fst (snd (GetHandle (\<lambda>f s l d. None) sample_face sample_heap 12 True (- 5))))
        (snd (snd (GetHandle (\<lambda>f s l d. None) sample_face sample_heap 12 True (- 5))))
        12 False (- 5)
      = GetHandle (\<lambda>f s l d. None) sample_face sample_heap 12 True (- 5)
   \<and> handles (fst (snd (GetHandle (\<lambda>f s l d. None) sample_face sample_heap 12 True (- 5))))
        (MakeHandleKey 12 0) = Some None"
    using same failed by (simp add: r1 r2)
  with clamped show ?thesis
    by blast
qed

end
